theory Spec2Isabelle
  imports Complex_Main
begin

section \<open>LokGeet: the entry store and the intake pipeline of \<^verbatim>\<open>app/app.py\<close>\<close>

text \<open>
  The script \<^verbatim>\<open>app.py\<close> is executed from top to bottom on every interaction. One such
  execution is modelled as a function from the state of the outside world before the run
  to the state after it. The values that the widgets hand to the script in a run (the
  uploaded file, which buttons report a click, the texts in the boxes, the consent
  checkbox) are inputs of the run; which combinations of them the page framework can
  produce in one execution is a matter of the framework and is not constrained here.
  The two optional libraries (speech recognition and
  transliteration), the clock and the location of the script are the environment of the
  run. A Python exception is a value of type \<open>error\<close>; it ends the run and leaves the
  world as it was when it was raised.
\<close>

subsection \<open>Values\<close>

type_synonym bytes = string

text \<open>Paths are lists of components below \<^verbatim>\<open>BASE_DIR\<close>, the directory of the script.\<close>

type_synonym path = "string list"

text \<open>What \<^verbatim>\<open>json.loads\<close> returns and \<^verbatim>\<open>json.dumps\<close> accepts. A Python dict keeps
  its keys in insertion order; it is an association list here.\<close>

datatype json =
    JNull
  | JBool bool
  | JNum int
  | JStr string
  | JArr "json list"
  | JObj "(string \<times> json) list"

text \<open>
  The JSON library is not part of the repository. A text is represented by what
  \<^verbatim>\<open>json.loads\<close> makes of it: either it is a JSON document that denotes a value, or it is
  not JSON at all. So \<^verbatim>\<open>json.loads (json.dumps v) = v\<close> is built into the representation;
  indentation and \<^verbatim>\<open>ensure_ascii\<close> do not change the value a document denotes.
\<close>

datatype document = Json_text json | Not_json string

text \<open>A file holds bytes (written by \<^verbatim>\<open>open(.., "wb")\<close>) or a text (written by
  \<^verbatim>\<open>write_text\<close>).\<close>

datatype content = Bytes bytes | Text document

datatype node = Dir | File content

datatype error =
    JSONDecodeError
  | UnicodeDecodeError
  | AttributeError
  | TypeError
  | FileNotFoundError
  | FileExistsError
  | IsADirectoryError
  | NotADirectoryError
  | ProviderError string

subsection \<open>The clock\<close>

record datetime =
  year :: nat
  month :: nat
  day :: nat
  hour :: nat
  minute :: nat
  second :: nat
  microsecond :: nat

definition digit_char :: "nat \<Rightarrow> char" where
  "digit_char d = ''0123456789'' ! (d mod 10)"

fun str_nat :: "nat \<Rightarrow> string" where
  "str_nat n = (if n < 10 then [digit_char n] else str_nat (n div 10) @ [digit_char (n mod 10)])"

declare str_nat.simps [simp del]

text \<open>\<^verbatim>\<open>%02d\<close>, \<^verbatim>\<open>%04d\<close>: decimal digits, padded with zeros on the left to the width.\<close>

definition zero_pad :: "nat \<Rightarrow> nat \<Rightarrow> string" where
  "zero_pad width n = replicate (width - length (str_nat n)) CHR ''0'' @ str_nat n"

text \<open>\<^verbatim>\<open>strftime("%Y%m%dT%H%M%SZ")\<close>\<close>

definition strftime_ts :: "datetime \<Rightarrow> string" where
  "strftime_ts t =
     zero_pad 4 (year t) @ zero_pad 2 (month t) @ zero_pad 2 (day t) @ ''T'' @
     zero_pad 2 (hour t) @ zero_pad 2 (minute t) @ zero_pad 2 (second t) @ ''Z''"

text \<open>\<^verbatim>\<open>str(d)\<close> of the date \<^verbatim>\<open>d = t.date()\<close>: ISO format.\<close>

definition str_date :: "nat \<times> nat \<times> nat \<Rightarrow> string" where
  "str_date d = (case d of (y, m, dd) \<Rightarrow> zero_pad 4 y @ ''-'' @ zero_pad 2 m @ ''-'' @ zero_pad 2 dd)"

definition date_of :: "datetime \<Rightarrow> nat \<times> nat \<times> nat" where
  "date_of t = (year t, month t, day t)"

subsection \<open>The two optional libraries\<close>

datatype scheme = DEVANAGARI | BENGALI | TAMIL | TELUGU | ITRANS

datatype whisper_model = Whisper string

record segment =
  seg_start :: real
  seg_end :: real
  seg_text :: string

text \<open>
  \<open>WHISPER_AVAILABLE\<close> and \<open>TRANSLIT_AVAILABLE\<close> are the two flags set by the guarded
  imports. \<open>WhisperModel\<close>, \<open>model_transcribe\<close> and \<open>transliterate\<close> are the library
  calls; what they compute is outside the repository, and they may raise.
  \<open>utcnow\<close> gives the reading of the clock at the n-th call of \<^verbatim>\<open>datetime.utcnow()\<close>.
  \<open>BASE_DIR\<close> is the absolute path of the script's directory as a string.
\<close>

record env =
  WHISPER_AVAILABLE :: bool
  TRANSLIT_AVAILABLE :: bool
  WhisperModel :: "string \<Rightarrow> error + whisper_model"
  model_transcribe :: "whisper_model \<Rightarrow> string \<Rightarrow> error + (segment list \<times> string)"
  transliterate :: "string \<Rightarrow> scheme \<Rightarrow> scheme \<Rightarrow> error + string"
  utcnow :: "nat \<Rightarrow> datetime"
  BASE_DIR :: string

subsection \<open>What the page shows\<close>

datatype event =
    Info_recording_experimental
  | Json_view json
  | Info_no_entries
  | Success_saved_to string
  | Error_asr_unavailable string
  | Info_paste_manually
  | Markdown_detected string nat
  | Error_consent_required
  | Success_saved
  | Sidebar_success_written nat string
  | Sidebar_info_csv

subsection \<open>The world and the runs over it\<close>

text \<open>
  \<open>fs\<close> is the directory tree below \<^verbatim>\<open>BASE_DIR\<close> (which itself exists: the script is in
  it). \<open>MODEL\<close> is the module-level variable of that name, \<open>ticks\<close> counts the calls of
  the clock, \<open>screen\<close> is what the page has shown so far in this run.
\<close>

record world =
  fs :: "path \<Rightarrow> node option"
  MODEL :: "whisper_model option"
  ticks :: nat
  screen :: "event list"

type_synonym 'a io = "world \<Rightarrow> (error + 'a) \<times> world"

definition return_io :: "'a \<Rightarrow> 'a io" where
  "return_io x = (\<lambda>w. (Inr x, w))"

definition raise_io :: "error \<Rightarrow> 'a io" where
  "raise_io e = (\<lambda>w. (Inl e, w))"

definition bind_io :: "'a io \<Rightarrow> ('a \<Rightarrow> 'b io) \<Rightarrow> 'b io" where
  "bind_io m f = (\<lambda>w. case m w of (Inl e, w') \<Rightarrow> (Inl e, w') | (Inr x, w') \<Rightarrow> f x w')"

definition when_io :: "bool \<Rightarrow> unit io \<Rightarrow> unit io" where
  "when_io b m = (if b then m else return_io ())"

definition st :: "event \<Rightarrow> unit io" where
  "st ev = (\<lambda>w. (Inr (), w\<lparr>screen := screen w @ [ev]\<rparr>))"

definition now :: "env \<Rightarrow> datetime io" where
  "now E = (\<lambda>w. (Inr (utcnow E (ticks w)), w\<lparr>ticks := Suc (ticks w)\<rparr>))"

subsection \<open>Files\<close>

definition UPLOAD_DIR :: path where
  "UPLOAD_DIR = [''uploads'']"

definition DB_FILE :: path where
  "DB_FILE = [''data.json'']"

definition EXPORT_FILE :: path where
  "EXPORT_FILE = [''export.json'']"

fun join :: "string \<Rightarrow> string list \<Rightarrow> string" where
  "join sep [] = []"
| "join sep [x] = x"
| "join sep (x # y # ys) = x @ sep @ join sep (y # ys)"

text \<open>\<^verbatim>\<open>str(BASE_DIR / ...)\<close>\<close>

definition str_path :: "env \<Rightarrow> path \<Rightarrow> string" where
  "str_path E p =
     (if p = [] then BASE_DIR E
      else if BASE_DIR E = ''/'' then ''/'' @ join ''/'' p
      else BASE_DIR E @ ''/'' @ join ''/'' p)"

text \<open>\<^verbatim>\<open>Path.exists()\<close>\<close>

definition path_exists :: "path \<Rightarrow> bool io" where
  "path_exists p = (\<lambda>w. (Inr (p = [] \<or> fs w p \<noteq> None), w))"

definition is_dir :: "world \<Rightarrow> path \<Rightarrow> bool" where
  "is_dir w p = (p = [] \<or> fs w p = Some Dir)"

text \<open>Opening a file for writing needs the parent directory, and the path must not be
  a directory.\<close>

definition open_for_writing :: "world \<Rightarrow> path \<Rightarrow> error option" where
  "open_for_writing w p =
     (if is_dir w p then Some IsADirectoryError
      else if is_dir w (butlast p) then None
      else if fs w (butlast p) = None then Some FileNotFoundError
      else Some NotADirectoryError)"

text \<open>\<^verbatim>\<open>with open(p, "wb") as f: f.write(b)\<close>\<close>

definition write_bytes :: "path \<Rightarrow> bytes \<Rightarrow> unit io" where
  "write_bytes p b = (\<lambda>w.
     case open_for_writing w p of
       Some e \<Rightarrow> (Inl e, w)
     | None \<Rightarrow> (Inr (), w\<lparr>fs := (fs w)(p \<mapsto> File (Bytes b))\<rparr>))"

text \<open>\<^verbatim>\<open>Path.write_text(t, encoding="utf8")\<close>\<close>

definition write_text :: "path \<Rightarrow> document \<Rightarrow> unit io" where
  "write_text p t = (\<lambda>w.
     case open_for_writing w p of
       Some e \<Rightarrow> (Inl e, w)
     | None \<Rightarrow> (Inr (), w\<lparr>fs := (fs w)(p \<mapsto> File (Text t))\<rparr>))"

text \<open>\<^verbatim>\<open>Path.read_text(encoding="utf8")\<close>. Bytes that were not written as a text are
  taken not to decode.\<close>

definition read_text :: "path \<Rightarrow> document io" where
  "read_text p = (\<lambda>w.
     if is_dir w p then (Inl IsADirectoryError, w)
     else case fs w p of
       None \<Rightarrow> (Inl FileNotFoundError, w)
     | Some Dir \<Rightarrow> (Inl IsADirectoryError, w)
     | Some (File (Bytes b)) \<Rightarrow> (Inl UnicodeDecodeError, w)
     | Some (File (Text t)) \<Rightarrow> (Inr t, w))"

text \<open>\<^verbatim>\<open>os.mkdir\<close>\<close>

definition os_mkdir :: "path \<Rightarrow> unit io" where
  "os_mkdir p = (\<lambda>w.
     if p = [] \<or> fs w p \<noteq> None then (Inl FileExistsError, w)
     else if is_dir w (butlast p) then (Inr (), w\<lparr>fs := (fs w)(p \<mapsto> Dir)\<rparr>)
     else if fs w (butlast p) = None then (Inl FileNotFoundError, w)
     else (Inl NotADirectoryError, w))"

text \<open>\<^verbatim>\<open>Path.mkdir(parents=True, exist_ok=True)\<close>, on the reversed path: a missing parent
  is created first; any other failure is forgiven when the path is a directory.\<close>

fun mkdir_rev :: "string list \<Rightarrow> unit io" where
  "mkdir_rev [] = return_io ()"
| "mkdir_rev (c # cs) = (\<lambda>w.
     case os_mkdir (rev (c # cs)) w of
       (Inr u, w') \<Rightarrow> (Inr u, w')
     | (Inl FileNotFoundError, w') \<Rightarrow>
         bind_io (mkdir_rev cs) (\<lambda>_ w''.
           case os_mkdir (rev (c # cs)) w'' of
             (Inr u, w3) \<Rightarrow> (Inr u, w3)
           | (Inl e, w3) \<Rightarrow> if is_dir w3 (rev (c # cs)) then (Inr (), w3) else (Inl e, w3)) w'
     | (Inl e, w') \<Rightarrow> if is_dir w' (rev (c # cs)) then (Inr (), w') else (Inl e, w'))"

definition mkdir_parents_exist_ok :: "path \<Rightarrow> unit io" where
  "mkdir_parents_exist_ok p = mkdir_rev (rev p)"

subsection \<open>The JSON library\<close>

definition json_loads :: "document \<Rightarrow> json io" where
  "json_loads t = (case t of Json_text v \<Rightarrow> return_io v | Not_json s \<Rightarrow> raise_io JSONDecodeError)"

definition json_dumps :: "json \<Rightarrow> document" where
  "json_dumps v = Json_text v"

text \<open>\<^verbatim>\<open>db.append(entry)\<close>: only a list has the method.\<close>

definition append_json :: "json \<Rightarrow> json \<Rightarrow> json io" where
  "append_json db entry =
     (case db of JArr xs \<Rightarrow> return_io (JArr (xs @ [entry])) | _ \<Rightarrow> raise_io AttributeError)"

text \<open>\<^verbatim>\<open>len(db)\<close>; on a \<^verbatim>\<open>str\<close> it counts code points, that is the bytes that do not continue
  an encoding.\<close>

definition continuation_byte :: "char \<Rightarrow> bool" where
  "continuation_byte c = (128 \<le> (of_char c :: nat) \<and> (of_char c :: nat) < 192)"


definition len_json :: "json \<Rightarrow> nat io" where
  "len_json db =
     (case db of
        JArr xs \<Rightarrow> return_io (length xs)
      | JObj kvs \<Rightarrow> return_io (length kvs)
      | JStr s \<Rightarrow> return_io (length (filter (\<lambda>c. \<not> continuation_byte c) s))
      | _ \<Rightarrow> raise_io TypeError)"

text \<open>\<^verbatim>\<open>if db:\<close>\<close>

definition truthy :: "json \<Rightarrow> bool" where
  "truthy v =
     (case v of
        JNull \<Rightarrow> False
      | JBool b \<Rightarrow> b
      | JNum n \<Rightarrow> n \<noteq> 0
      | JStr s \<Rightarrow> s \<noteq> []
      | JArr xs \<Rightarrow> xs \<noteq> []
      | JObj kvs \<Rightarrow> kvs \<noteq> [])"

subsection \<open>The entry store\<close>

definition load_db :: "json io" where
  "load_db =
     bind_io (path_exists DB_FILE) (\<lambda>ex.
       if ex then bind_io (read_text DB_FILE) json_loads
       else return_io (JArr []))"

definition save_entry :: "json \<Rightarrow> unit io" where
  "save_entry entry =
     bind_io load_db (\<lambda>db.
     bind_io (append_json db entry) (\<lambda>db'.
     write_text DB_FILE (json_dumps db')))"

subsection \<open>Strings and file names\<close>

text \<open>
  A Python \<^verbatim>\<open>str\<close> is represented by its UTF-8 bytes. \<^verbatim>\<open>str.isspace\<close> holds for the code
  points 9 to 13, 28 to 32, U+0085, U+00A0, U+1680, U+2000 to U+200A, U+2028, U+2029,
  U+202F, U+205F and U+3000; they are given here by their encodings of one, two and three
  bytes. In UTF-8 no encoding is part of another, so a blank is found at either end of a
  text by comparing bytes.
\<close>

definition blank1 :: "char \<Rightarrow> bool" where
  "blank1 a = (a \<in> set [CHR 0x09, CHR 0x0A, CHR 0x0B, CHR 0x0C, CHR 0x0D,
                          CHR 0x1C, CHR 0x1D, CHR 0x1E, CHR 0x1F, CHR 0x20])"

definition blank2 :: "char \<Rightarrow> char \<Rightarrow> bool" where
  "blank2 a b = (a = CHR 0xC2 \<and> (b = CHR 0x85 \<or> b = CHR 0xA0))"

definition blank3 :: "char \<Rightarrow> char \<Rightarrow> char \<Rightarrow> bool" where
  "blank3 a b c =
     ((a = CHR 0xE1 \<and> b = CHR 0x9A \<and> c = CHR 0x80) \<or>
      (a = CHR 0xE2 \<and> b = CHR 0x80 \<and>
         c \<in> set [CHR 0x80, CHR 0x81, CHR 0x82, CHR 0x83, CHR 0x84, CHR 0x85, CHR 0x86,
                   CHR 0x87, CHR 0x88, CHR 0x89, CHR 0x8A, CHR 0xA8, CHR 0xA9, CHR 0xAF]) \<or>
      (a = CHR 0xE2 \<and> b = CHR 0x81 \<and> c = CHR 0x9F) \<or>
      (a = CHR 0xE3 \<and> b = CHR 0x80 \<and> c = CHR 0x80))"

text \<open>\<^verbatim>\<open>s.lstrip()\<close>\<close>

fun lstrip :: "string \<Rightarrow> string" where
  "lstrip [] = []"
| "lstrip [a] = (if blank1 a then [] else [a])"
| "lstrip [a, b] =
     (if blank1 a then lstrip [b] else if blank2 a b then [] else [a, b])"
| "lstrip (a # b # c # s) =
     (if blank1 a then lstrip (b # c # s)
      else if blank2 a b then lstrip (c # s)
      else if blank3 a b c then lstrip s
      else a # b # c # s)"

text \<open>\<^verbatim>\<open>s.rstrip()\<close>, on the reversed text: the last byte comes first.\<close>

fun rstrip_rev :: "string \<Rightarrow> string" where
  "rstrip_rev [] = []"
| "rstrip_rev [c] = (if blank1 c then [] else [c])"
| "rstrip_rev [c, b] =
     (if blank1 c then rstrip_rev [b] else if blank2 b c then [] else [c, b])"
| "rstrip_rev (c # b # a # s) =
     (if blank1 c then rstrip_rev (b # a # s)
      else if blank2 b c then rstrip_rev (a # s)
      else if blank3 a b c then rstrip_rev s
      else c # b # a # s)"

text \<open>\<^verbatim>\<open>s.strip()\<close>\<close>

definition strip :: "string \<Rightarrow> string" where
  "strip s = rev (rstrip_rev (rev (lstrip s)))"

text \<open>\<^verbatim>\<open>s.split(c)\<close>\<close>

fun split_on :: "char \<Rightarrow> string \<Rightarrow> string list" where
  "split_on c [] = [[]]"
| "split_on c (x # xs) =
     (if x = c then [] # split_on c xs
      else case split_on c xs of [] \<Rightarrow> [[x]] | y # ys \<Rightarrow> (x # y) # ys)"

text \<open>\<^verbatim>\<open>Path(s).name\<close>: the last component; empty components and \<^verbatim>\<open>.\<close> are dropped.\<close>

definition path_name :: "string \<Rightarrow> string" where
  "path_name s =
     (case filter (\<lambda>p. p \<noteq> [] \<and> p \<noteq> ''.'') (split_on CHR ''/'' s) of
        [] \<Rightarrow> []
      | p # ps \<Rightarrow> last (p # ps))"

text \<open>\<^verbatim>\<open>s.rfind(c)\<close>, with \<open>None\<close> for -1\<close>

fun rfind :: "char \<Rightarrow> string \<Rightarrow> nat option" where
  "rfind c [] = None"
| "rfind c (x # xs) =
     (case rfind c xs of
        Some i \<Rightarrow> Some (Suc i)
      | None \<Rightarrow> if x = c then Some 0 else None)"

text \<open>\<^verbatim>\<open>Path(s).suffix\<close>: from the last dot of the name, unless that dot is the first or
  the last character.\<close>

definition path_suffix :: "string \<Rightarrow> string" where
  "path_suffix s =
     (let name = path_name s in
      case rfind CHR ''.'' name of
        None \<Rightarrow> []
      | Some i \<Rightarrow> if 0 < i \<and> Suc i < length name then drop i name else [])"

subsection \<open>Helpers of the script\<close>

definition load_model :: "env \<Rightarrow> string \<Rightarrow> whisper_model option io" where
  "load_model E model_size = (\<lambda>w.
     if \<not> WHISPER_AVAILABLE E then (Inr None, w)
     else case MODEL w of
       None \<Rightarrow>
         (case WhisperModel E model_size of
            Inl e \<Rightarrow> (Inl e, w)
          | Inr m \<Rightarrow> (Inr (Some m), w\<lparr>MODEL := Some m\<rparr>))
     | Some m \<Rightarrow> (Inr (Some m), w))"

text \<open>The dict that \<^verbatim>\<open>transcribe_with_whisper\<close> returns; the key \<^verbatim>\<open>error\<close> is present
  only in the fallback.\<close>

record asr_result =
  asr_transcript :: string
  asr_segments :: "segment list"
  asr_language :: "string option"
  asr_error :: "string option"

definition lift_io :: "error + 'a \<Rightarrow> 'a io" where
  "lift_io r = (case r of Inl e \<Rightarrow> raise_io e | Inr x \<Rightarrow> return_io x)"

definition transcribe_with_whisper :: "env \<Rightarrow> string \<Rightarrow> string \<Rightarrow> asr_result io" where
  "transcribe_with_whisper E audio_path model_size =
     bind_io (load_model E model_size) (\<lambda>model.
       case model of
         None \<Rightarrow>
           return_io \<lparr>asr_transcript = [], asr_segments = [], asr_language = None,
                      asr_error = Some ''faster-whisper not available''\<rparr>
       | Some m \<Rightarrow>
           bind_io (lift_io (model_transcribe E m audio_path)) (\<lambda>(segments, language).
             return_io \<lparr>asr_transcript = join '' '' (map (\<lambda>s. strip (seg_text s)) segments),
                        asr_segments = segments, asr_language = Some language,
                        asr_error = None\<rparr>))"

definition lang_to_scheme :: "string \<Rightarrow> scheme option" where
  "lang_to_scheme =
     [''hi'' \<mapsto> DEVANAGARI, ''mr'' \<mapsto> DEVANAGARI, ''bn'' \<mapsto> BENGALI,
      ''ta'' \<mapsto> TAMIL, ''te'' \<mapsto> TELUGU]"

definition romanize :: "env \<Rightarrow> string \<Rightarrow> string \<Rightarrow> error + string" where
  "romanize E txt lang_code =
     (if \<not> TRANSLIT_AVAILABLE E then Inr []
      else let src = (case lang_to_scheme lang_code of None \<Rightarrow> DEVANAGARI | Some s \<Rightarrow> s)
           in transliterate E txt src ITRANS)"

subsection \<open>The widgets\<close>

text \<open>
  A button reports whether it was clicked. A box reports what the operator has put into
  it, and the value the script offers when the operator has not touched it.
\<close>

record ui =
  audio_file :: "(string \<times> bytes) option"
  record_clicked :: bool
  model_choice :: string
  show_clicked :: bool
  process_clicked :: bool
  transcript_typed :: "string option"
  language_typed :: "string option"
  translit_typed :: "string option"
  translation_typed :: "string option"
  title_typed :: "string option"
  performer_typed :: "string option"
  location_typed :: "string option"
  context_typed :: "string option"
  date_picked :: "(nat \<times> nat \<times> nat) option"
  consent :: bool
  submitted :: bool
  export_clicked :: bool
  csv_clicked :: bool

definition widget :: "'a \<Rightarrow> 'a option \<Rightarrow> 'a" where
  "widget offered typed = (case typed of None \<Rightarrow> offered | Some v \<Rightarrow> v)"

subsection \<open>The script\<close>

text \<open>Lines 39 and 41.\<close>

definition module_init :: "unit io" where
  "module_init =
     bind_io (mkdir_parents_exist_ok UPLOAD_DIR) (\<lambda>_ w.
       (Inr (), w\<lparr>MODEL := None\<rparr>))"

text \<open>Lines 232 to 250: the two columns.\<close>

definition column1 :: "ui \<Rightarrow> unit io" where
  "column1 U = when_io (record_clicked U) (st Info_recording_experimental)"

definition column2 :: "ui \<Rightarrow> unit io" where
  "column2 U =
     when_io (show_clicked U)
       (bind_io load_db (\<lambda>db.
          if truthy db then st (Json_view db) else st Info_no_entries))"

text \<open>Lines 259 to 264: the upload is written under the upload directory.\<close>

definition save_audio :: "env \<Rightarrow> string \<Rightarrow> bytes \<Rightarrow> (string \<times> path) io" where
  "save_audio E name buffer =
     (let suffix = path_suffix name in
      bind_io (now E) (\<lambda>t.
        let ts = strftime_ts t;
            saved_path = UPLOAD_DIR @ [ts @ suffix]
        in bind_io (write_bytes saved_path buffer) (\<lambda>_.
           bind_io (st (Success_saved_to (str_path E saved_path))) (\<lambda>_.
           return_io (ts, saved_path)))))"

text \<open>Lines 266 to 274: speech recognition, or the empty box.\<close>

definition asr_block :: "env \<Rightarrow> ui \<Rightarrow> path \<Rightarrow> (asr_result \<times> string) io" where
  "asr_block E U saved_path =
     bind_io (transcribe_with_whisper E (str_path E saved_path) (model_choice U)) (\<lambda>asr.
       case asr_error asr of
         Some msg \<Rightarrow>
           bind_io (st (Error_asr_unavailable msg)) (\<lambda>_.
           bind_io (st Info_paste_manually) (\<lambda>_.
           return_io (asr, widget [] (transcript_typed U))))
       | None \<Rightarrow>
           bind_io (st (Markdown_detected (case asr_language asr of None \<Rightarrow> [] | Some l \<Rightarrow> l)
                          (length (asr_segments asr)))) (\<lambda>_.
           return_io (asr, widget (asr_transcript asr) (transcript_typed U))))"

text \<open>Lines 279 to 284: language, transliteration and translation.\<close>

definition translit_block ::
    "env \<Rightarrow> ui \<Rightarrow> asr_result \<Rightarrow> string \<Rightarrow> (string \<times> string \<times> string) io" where
  "translit_block E U asr transcript =
     (let detected_lang =
            (case asr_language asr of
               None \<Rightarrow> widget ''hi'' (language_typed U)
             | Some l \<Rightarrow> if l \<noteq> [] then l else widget ''hi'' (language_typed U))
      in bind_io
           (if strip transcript \<noteq> [] then
              (if TRANSLIT_AVAILABLE E then lift_io (romanize E transcript detected_lang)
               else return_io [])
            else return_io []) (\<lambda>transliteration.
         let translit_box = widget transliteration (translit_typed U);
             translation = widget [] (translation_typed U)
         in return_io (detected_lang, translit_box, translation)))"

text \<open>Lines 289 to 293: what the form holds when it is submitted.\<close>

record form_values =
  form_title :: string
  form_performer :: string
  form_location :: string
  form_context :: string
  form_date :: "nat \<times> nat \<times> nat"

text \<open>Lines 301 to 314: the record that is stored.\<close>

definition entry_dict ::
    "string \<Rightarrow> form_values \<Rightarrow> string \<Rightarrow> string \<Rightarrow> string \<Rightarrow> string \<Rightarrow> string \<Rightarrow> json" where
  "entry_dict ts form saved_path transcript translit_box translation detected_lang =
     JObj [(''id'', JStr ts),
           (''title'', JStr (form_title form)),
           (''performer'', JStr (form_performer form)),
           (''location'', JStr (form_location form)),
           (''context'', JStr (form_context form)),
           (''date_of_recording'', JStr (str_date (form_date form))),
           (''uploaded_at'', JStr ts),
           (''audio_path'', JStr saved_path),
           (''transcript'', JStr transcript),
           (''transliteration'', JStr translit_box),
           (''translation'', JStr translation),
           (''detected_language'', JStr detected_lang)]"

text \<open>Lines 288 to 316: the form with the consent checkbox.\<close>

definition meta_form ::
    "env \<Rightarrow> ui \<Rightarrow> string \<Rightarrow> path \<Rightarrow> string \<Rightarrow> string \<Rightarrow> string \<Rightarrow> string \<Rightarrow> unit io" where
  "meta_form E U ts saved_path transcript translit_box translation detected_lang =
     bind_io (now E) (\<lambda>t.
       let form = \<lparr>form_title = widget [] (title_typed U),
                   form_performer = widget [] (performer_typed U),
                   form_location = widget [] (location_typed U),
                   form_context = widget [] (context_typed U),
                   form_date = widget (date_of t) (date_picked U)\<rparr>
       in if submitted U then
            (if \<not> consent U then st Error_consent_required
             else bind_io
                    (save_entry
                       (entry_dict ts form (str_path E saved_path) transcript translit_box
                          translation detected_lang)) (\<lambda>_.
                  st Success_saved))
          else return_io ())"

text \<open>Lines 256 to 316.\<close>

definition process_branch :: "env \<Rightarrow> ui \<Rightarrow> string \<Rightarrow> bytes \<Rightarrow> unit io" where
  "process_branch E U name buffer =
     bind_io (save_audio E name buffer) (\<lambda>(ts, saved_path).
     bind_io (asr_block E U saved_path) (\<lambda>(asr, transcript).
     bind_io (translit_block E U asr transcript) (\<lambda>(detected_lang, translit_box, translation).
     meta_form E U ts saved_path transcript translit_box translation detected_lang)))"

text \<open>Lines 321 to 325: the export button.\<close>

definition export_panel :: "env \<Rightarrow> ui \<Rightarrow> unit io" where
  "export_panel E U =
     when_io (export_clicked U)
       (bind_io load_db (\<lambda>db.
        bind_io (write_text EXPORT_FILE (json_dumps db)) (\<lambda>_.
        bind_io (len_json db) (\<lambda>n.
        st (Sidebar_success_written n (str_path E EXPORT_FILE))))))"

definition csv_panel :: "ui \<Rightarrow> unit io" where
  "csv_panel U = when_io (csv_clicked U) (st Sidebar_info_csv)"

text \<open>The script from top to bottom.\<close>

definition script :: "env \<Rightarrow> ui \<Rightarrow> unit io" where
  "script E U =
     bind_io module_init (\<lambda>_.
     bind_io (column1 U) (\<lambda>_.
     bind_io (column2 U) (\<lambda>_.
     bind_io
       (case audio_file U of
          None \<Rightarrow> return_io ()
        | Some (name, buffer) \<Rightarrow>
            if process_clicked U then process_branch E U name buffer else return_io ()) (\<lambda>_.
     bind_io (export_panel E U) (\<lambda>_.
     csv_panel U)))))"

text \<open>One execution of the script: the page is drawn anew.\<close>

definition run :: "env \<Rightarrow> ui \<Rightarrow> unit io" where
  "run E U = (\<lambda>w. script E U (w\<lparr>screen := []\<rparr>))"

subsection \<open>What a part of the script may touch\<close>

text \<open>
  \<open>stays S V w w'\<close>: from \<open>w\<close> to \<open>w'\<close> only the paths in \<open>S\<close> may have changed, and
  only events in \<open>V\<close> may have been added to the page. \<open>confined S V m\<close>: every
  execution of \<open>m\<close>, also one that ends in an exception, stays within \<open>S\<close> and \<open>V\<close>.
\<close>

definition stays :: "path set \<Rightarrow> event set \<Rightarrow> world \<Rightarrow> world \<Rightarrow> bool" where
  "stays S V w w' =
     ((\<forall>p. p \<notin> S \<longrightarrow> fs w' p = fs w p) \<and>
      (\<forall>ev. ev \<in> set (screen w') \<longrightarrow> ev \<in> V \<or> ev \<in> set (screen w)))"

definition confined :: "path set \<Rightarrow> event set \<Rightarrow> 'a io \<Rightarrow> bool" where
  "confined S V m = (\<forall>w. stays S V w (snd (m w)))"

subsection \<open>Concrete environments, worlds and inputs\<close>

definition clock0 :: "nat \<Rightarrow> datetime" where
  "clock0 n =
     \<lparr>year = 2024, month = 3, day = 9, hour = 7, minute = 5, second = n, microsecond = 250\<rparr>"

text \<open>Neither library is installed.\<close>

definition demo_env :: env where
  "demo_env =
     \<lparr>WHISPER_AVAILABLE = False, TRANSLIT_AVAILABLE = False,
      WhisperModel = (\<lambda>sz. Inr (Whisper sz)),
      model_transcribe =
        (\<lambda>m p. Inr ([\<lparr>seg_start = 0, seg_end = 2, seg_text = '' raama raama ''\<rparr>], ''hi'')),
      transliterate = (\<lambda>t src dst. Inr t),
      utcnow = clock0,
      BASE_DIR = ''/srv/lokgeet/app''\<rparr>"

definition empty_world :: world where
  "empty_world = \<lparr>fs = Map.empty, MODEL = None, ticks = 0, screen = []\<rparr>"

definition demo_entry :: "string \<Rightarrow> json" where
  "demo_entry n =
     entry_dict n
       \<lparr>form_title = ''Lori'', form_performer = ''Asha'', form_location = ''Pune'',
        form_context = ''lullaby'', form_date = (2024, 3, 1)\<rparr>
       (''/srv/lokgeet/app/uploads/'' @ n @ ''.wav'') ''so ja'' ''so jA'' ''sleep'' ''hi''"

definition demo_store :: "json list" where
  "demo_store =
     [demo_entry ''20240301T100000Z'', demo_entry ''20240302T100000Z'',
      demo_entry ''20240303T100000Z'']"

definition stored_world :: world where
  "stored_world =
     empty_world\<lparr>fs := [UPLOAD_DIR \<mapsto> Dir,
                          DB_FILE \<mapsto> File (Text (Json_text (JArr demo_store)))]\<rparr>"


definition demo_ui :: ui where
  "demo_ui =
     \<lparr>audio_file = Some (''song1.wav'', ''RIFF''), record_clicked = False,
      model_choice = ''small'', show_clicked = False, process_clicked = True,
      transcript_typed = Some ''sample lyrics'', language_typed = None,
      translit_typed = None, translation_typed = None, title_typed = None,
      performer_typed = None, location_typed = None, context_typed = None,
      date_picked = None, consent = True, submitted = True, export_clicked = False,
      csv_clicked = False\<rparr>"

subsection \<open>Reading the store and its entries\<close>

text \<open>\<open>field k e\<close> is \<^verbatim>\<open>e.get(k)\<close> for a stored record \<open>e\<close>; \<open>stored w\<close> are the entries
  of the backing file when it holds an array; \<open>timeless m\<close>: \<open>m\<close> does not read the
  clock; \<open>quiet\<close>: the backing file is untouched and nothing is reported as saved.\<close>

definition field :: "string \<Rightarrow> json \<Rightarrow> json option" where
  "field k e = (case e of JObj kvs \<Rightarrow> map_of kvs k | _ \<Rightarrow> None)"

definition timeless :: "'a io \<Rightarrow> bool" where
  "timeless m = (\<forall>w. ticks (snd (m w)) = ticks w)"

abbreviation quiet :: "world \<Rightarrow> world \<Rightarrow> bool" where
  "quiet \<equiv> stays (- {DB_FILE}) (- {Success_saved})"

definition stored :: "world \<Rightarrow> json list" where
  "stored w = (case fs w DB_FILE of Some (File (Text (Json_text (JArr xs)))) \<Rightarrow> xs | _ \<Rightarrow> [])"

definition entry_keys :: "json \<Rightarrow> string list" where
  "entry_keys e = (case e of JObj kvs \<Rightarrow> map fst kvs | _ \<Rightarrow> [])"

text \<open>The field names of a stored record, in the order in which line 301 to 314 write
  them.\<close>

definition data_model_fields :: "string list" where
  "data_model_fields =
     [''id'', ''title'', ''performer'', ''location'', ''context'', ''date_of_recording'',
      ''uploaded_at'', ''audio_path'', ''transcript'', ''transliteration'', ''translation'',
      ''detected_language'']"

definition entry_shape :: "json \<Rightarrow> bool" where
  "entry_shape e =
     (entry_keys e = data_model_fields \<and> ''consent'' \<notin> set (entry_keys e) \<and>
      field ''id'' e \<noteq> None \<and> field ''uploaded_at'' e = field ''id'' e)"

text \<open>Several executions of the script, one after the other.\<close>

fun runs :: "(env \<times> ui) list \<Rightarrow> world \<Rightarrow> world" where
  "runs [] w = w"
| "runs ((E, U) # rs) w = runs rs (snd (run E U w))"

text \<open>The dict that \<^verbatim>\<open>transcribe_with_whisper\<close> returns when the model could not be loaded (line 194).\<close>

definition fallback_asr :: asr_result where
  "fallback_asr =
     \<lparr>asr_transcript = [], asr_segments = [], asr_language = None,
      asr_error = Some ''faster-whisper not available''\<rparr>"

text \<open>The transliteration library is installed; this stand-in copies its input, as the
  library does with characters that are not of the source script.\<close>

definition translit_env :: env where
  "translit_env = demo_env\<lparr>TRANSLIT_AVAILABLE := True\<rparr>"

subsection \<open>One interaction per run\<close>

text \<open>
  The page framework executes the script once for every interaction of the operator, and
  \<^verbatim>\<open>st.button\<close> and \<^verbatim>\<open>st.form_submit_button\<close> return \<^verbatim>\<open>True\<close> only in the execution that
  their own click has started. So, in a session, at most one of the six buttons of the
  script is \<^verbatim>\<open>True\<close> in a run. The framework is not part of the repository; this is its
  documented rule, as a predicate on the inputs of a run. The other widgets (the boxes,
  the checkbox, the uploader) keep what the operator has put in.
\<close>

definition one_interaction :: "ui \<Rightarrow> bool" where
  "one_interaction U =
     (sum_list (map of_bool [record_clicked U, show_clicked U, process_clicked U, submitted U,
                             export_clicked U, csv_clicked U]) \<le> (1::nat))"

text \<open>
  A session on the upload \<^verbatim>\<open>song1.wav\<close>: the operator clicks \<^verbatim>\<open>Process audio\<close> (the boxes
  are fresh), then types the transcript, then ticks the consent box and clicks
  \<^verbatim>\<open>Save entry\<close>.
\<close>

definition process_ui :: ui where
  "process_ui = demo_ui\<lparr>transcript_typed := None, consent := False, submitted := False\<rparr>"

definition typing_ui :: ui where
  "typing_ui = demo_ui\<lparr>process_clicked := False, consent := False, submitted := False\<rparr>"

definition submit_ui :: ui where
  "submit_ui = demo_ui\<lparr>process_clicked := False\<rparr>"

text \<open>
  A reading of \<^verbatim>\<open>datetime.utcnow()\<close> with a year of four digits: a calendar date and a time
  of day.
\<close>

definition clock_reading_ok :: "datetime \<Rightarrow> bool" where
  "clock_reading_ok t =
     (1000 \<le> year t \<and> year t \<le> 9999 \<and> 1 \<le> month t \<and> month t \<le> 12 \<and>
      1 \<le> day t \<and> day t \<le> 31 \<and> hour t < 24 \<and> minute t < 60 \<and> second t < 60)"




section \<open>Properties\<close>

subsection \<open>Sequencing\<close>

lemma bind_io_InrE:
  assumes "bind_io m f w = (Inr y, w2)"
  obtains x w1 where "m w = (Inr x, w1)" and "f x w1 = (Inr y, w2)"
  using assms by (auto simp: bind_io_def split: prod.splits sum.splits)

lemma stays_refl [simp]: "stays S V w w"
  by (simp add: stays_def)

lemma stays_trans: "stays S V w w1 \<Longrightarrow> stays S V w1 w2 \<Longrightarrow> stays S V w w2"
  by (auto simp: stays_def)

lemma confined_return [simp]: "confined S V (return_io x)"
  by (simp add: confined_def return_io_def)

lemma confined_raise [simp]: "confined S V (raise_io e)"
  by (simp add: confined_def raise_io_def)

lemma confined_lift [simp]: "confined S V (lift_io r)"
  by (cases r) (simp_all add: lift_io_def)

lemma confined_st: "ev \<in> V \<Longrightarrow> confined S V (st ev)"
  by (simp add: confined_def st_def stays_def)

lemma confined_now [simp]: "confined S V (now E)"
  by (simp add: confined_def now_def stays_def)

lemma confined_bind:
  assumes "confined S V m" and "\<And>x. confined S V (f x)"
  shows "confined S V (bind_io m f)"
  unfolding confined_def
proof
  fix w
  obtain r w1 where mw: "m w = (r, w1)" by (cases "m w")
  have 1: "stays S V w w1" using assms(1) mw by (auto simp: confined_def dest: spec [of _ w])
  show "stays S V w (snd (bind_io m f w))"
  proof (cases r)
    case (Inl e)
    with mw 1 show ?thesis by (simp add: bind_io_def)
  next
    case (Inr x)
    have "stays S V w1 (snd (f x w1))" using assms(2) by (simp add: confined_def)
    with 1 have "stays S V w (snd (f x w1))" by (rule stays_trans)
    with mw Inr show ?thesis by (simp add: bind_io_def)
  qed
qed

lemma confined_when: "confined S V m \<Longrightarrow> confined S V (when_io b m)"
  by (simp add: when_io_def)

subsection \<open>Files and the store\<close>

lemma confined_path_exists [simp]: "confined S V (path_exists p)"
  by (simp add: confined_def path_exists_def)

lemma confined_read_text [simp]: "confined S V (read_text p)"
  by (auto simp: confined_def read_text_def split: option.splits node.splits content.splits)

lemma confined_json_loads [simp]: "confined S V (json_loads t)"
  by (cases t) (simp_all add: json_loads_def)

lemma confined_append_json [simp]: "confined S V (append_json db e)"
  by (cases db) (simp_all add: append_json_def)

lemma confined_len_json [simp]: "confined S V (len_json db)"
  by (cases db) (simp_all add: len_json_def)

lemma confined_write_text: "p \<in> S \<Longrightarrow> confined S V (write_text p t)"
  by (auto simp: confined_def stays_def write_text_def split: option.splits)

lemma confined_write_bytes: "p \<in> S \<Longrightarrow> confined S V (write_bytes p t)"
  by (auto simp: confined_def stays_def write_bytes_def split: option.splits)

lemma confined_load_db [simp]: "confined S V load_db"
  unfolding load_db_def by (auto intro!: confined_bind)

lemma confined_save_entry: "DB_FILE \<in> S \<Longrightarrow> confined S V (save_entry e)"
  unfolding save_entry_def by (auto intro!: confined_bind confined_write_text)

lemma load_db_cases:
  "load_db w =
     (case fs w DB_FILE of
        None \<Rightarrow> (Inr (JArr []), w)
      | Some Dir \<Rightarrow> (Inl IsADirectoryError, w)
      | Some (File (Bytes b)) \<Rightarrow> (Inl UnicodeDecodeError, w)
      | Some (File (Text (Not_json s))) \<Rightarrow> (Inl JSONDecodeError, w)
      | Some (File (Text (Json_text v))) \<Rightarrow> (Inr v, w))"
  by (auto simp: load_db_def bind_io_def path_exists_def read_text_def is_dir_def DB_FILE_def
      json_loads_def return_io_def raise_io_def
      split: option.splits node.splits content.splits document.splits)

lemma load_db_snd: "snd (load_db w) = w"
  by (simp add: load_db_cases split: option.splits node.splits content.splits document.splits)

lemma load_db_depends:
  "fs w1 DB_FILE = fs w2 DB_FILE \<Longrightarrow> fst (load_db w1) = fst (load_db w2)"
  by (simp add: load_db_cases split: option.splits node.splits content.splits document.splits)

lemma load_db_JArr:
  "fst (load_db w) = Inr (JArr C) \<Longrightarrow>
     (fs w DB_FILE = None \<and> C = []) \<or> fs w DB_FILE = Some (File (Text (Json_text (JArr C))))"
  by (auto simp: load_db_cases split: option.splits node.splits content.splits document.splits)

lemma save_entry_JArr:
  assumes "fst (load_db w) = Inr (JArr C)"
  shows "save_entry e w =
          (Inr (), w\<lparr>fs := (fs w)(DB_FILE \<mapsto> File (Text (Json_text (JArr (C @ [e])))))\<rparr>)"
proof -
  have 1: "load_db w = (Inr (JArr C), w)"
    using assms load_db_snd [of w] by (cases "load_db w") simp
  have 2: "open_for_writing w DB_FILE = None"
    using load_db_JArr [OF assms] by (auto simp: open_for_writing_def is_dir_def DB_FILE_def)
  show ?thesis
    by (simp add: save_entry_def bind_io_def 1 append_json_def return_io_def write_text_def 2
        json_dumps_def)
qed


subsection \<open>The parts of the script\<close>

lemma confined_module_init: "UPLOAD_DIR \<in> S \<Longrightarrow> confined S V module_init"
  by (auto simp: confined_def stays_def module_init_def mkdir_parents_exist_ok_def UPLOAD_DIR_def
      bind_io_def os_mkdir_def is_dir_def return_io_def
      split: prod.splits sum.splits error.splits if_splits)

lemma confined_column1: "Info_recording_experimental \<in> V \<Longrightarrow> confined S V (column1 U)"
  unfolding column1_def by (auto intro!: confined_when confined_st)

lemma confined_column2:
  "Info_no_entries \<in> V \<Longrightarrow> (\<And>db. Json_view db \<in> V) \<Longrightarrow> confined S V (column2 U)"
  unfolding column2_def by (auto intro!: confined_when confined_bind confined_st)

lemma confined_load_model [simp]: "confined S V (load_model E sz)"
  by (auto simp: confined_def stays_def load_model_def split: option.splits sum.splits)

lemma confined_transcribe [simp]: "confined S V (transcribe_with_whisper E a sz)"
  unfolding transcribe_with_whisper_def
  by (auto intro!: confined_bind split: option.splits prod.splits)

lemma confined_save_audio:
  assumes "\<And>x. UPLOAD_DIR @ [x] \<in> S" and "\<And>x. Success_saved_to x \<in> V"
  shows "confined S V (save_audio E name b)"
  unfolding save_audio_def Let_def
  by (auto intro!: confined_bind confined_write_bytes confined_st assms)

lemma confined_asr_block:
  assumes "\<And>x. Error_asr_unavailable x \<in> V" and "Info_paste_manually \<in> V"
    and "\<And>x n. Markdown_detected x n \<in> V"
  shows "confined S V (asr_block E U sp)"
  unfolding asr_block_def
  by (auto intro!: confined_bind confined_st assms split: option.splits)

lemma confined_translit_block [simp]: "confined S V (translit_block E U asr tr)"
  unfolding translit_block_def Let_def
  by (auto intro!: confined_bind split: option.splits)

lemma confined_meta_form_no_consent:
  assumes "\<not> consent U" and "Error_consent_required \<in> V"
  shows "confined S V (meta_form E U ts sp tr tb tn dl)"
  unfolding meta_form_def Let_def using assms
  by (auto intro!: confined_bind confined_st)

lemma confined_meta_form:
  assumes "DB_FILE \<in> S" and "Error_consent_required \<in> V" and "Success_saved \<in> V"
  shows "confined S V (meta_form E U ts sp tr tb tn dl)"
  unfolding meta_form_def Let_def using assms
  by (auto intro!: confined_bind confined_st confined_save_entry)

lemma confined_export_panel:
  assumes "EXPORT_FILE \<in> S" and "\<And>n x. Sidebar_success_written n x \<in> V"
  shows "confined S V (export_panel E U)"
  unfolding export_panel_def
  by (auto intro!: confined_when confined_bind confined_st confined_write_text assms)

lemma confined_csv_panel: "Sidebar_info_csv \<in> V \<Longrightarrow> confined S V (csv_panel U)"
  unfolding csv_panel_def by (auto intro!: confined_when confined_st)

lemma confined_process_no_consent:
  assumes "\<not> consent U"
  shows "confined (- {DB_FILE}) (- {Success_saved}) (process_branch E U name b)"
proof -
  have a: "\<And>x. UPLOAD_DIR @ [x] \<in> - {DB_FILE}"
    by (simp add: DB_FILE_def UPLOAD_DIR_def)
  show ?thesis
    unfolding process_branch_def
    by (auto intro!: confined_bind confined_save_audio confined_asr_block
          confined_meta_form_no_consent assms a)
qed

lemma confined_script_no_consent:
  assumes "\<not> consent U"
  shows "confined (- {DB_FILE}) (- {Success_saved}) (script E U)"
proof -
  have a: "UPLOAD_DIR \<in> - {DB_FILE}" "EXPORT_FILE \<in> - {DB_FILE}"
    by (simp_all add: DB_FILE_def UPLOAD_DIR_def EXPORT_FILE_def)
  note p = confined_process_no_consent [OF assms]
  show ?thesis
    unfolding script_def
    by (auto intro!: confined_bind confined_module_init confined_column1 confined_column2
          p a confined_export_panel confined_csv_panel split: option.splits)
qed

subsection \<open>Runs that write the store\<close>

lemma timeless_return [simp]: "timeless (return_io x)"
  by (simp add: timeless_def return_io_def)

lemma timeless_raise [simp]: "timeless (raise_io e)"
  by (simp add: timeless_def raise_io_def)

lemma timeless_lift [simp]: "timeless (lift_io r)"
  by (cases r) (simp_all add: lift_io_def)

lemma timeless_st [simp]: "timeless (st ev)"
  by (simp add: timeless_def st_def)

lemma timeless_bind:
  assumes "timeless m" and "\<And>x. timeless (f x)"
  shows "timeless (bind_io m f)"
  unfolding timeless_def
proof
  fix w
  obtain r w1 where mw: "m w = (r, w1)" by (cases "m w")
  have 1: "ticks w1 = ticks w" using assms(1) mw by (auto simp: timeless_def dest: spec [of _ w])
  show "ticks (snd (bind_io m f w)) = ticks w"
  proof (cases r)
    case (Inl e)
    with mw 1 show ?thesis by (simp add: bind_io_def)
  next
    case (Inr x)
    have "ticks (snd (f x w1)) = ticks w1" using assms(2) by (simp add: timeless_def)
    with mw Inr 1 show ?thesis by (simp add: bind_io_def)
  qed
qed

lemma timeless_when: "timeless m \<Longrightarrow> timeless (when_io b m)"
  by (simp add: when_io_def)

lemma timeless_load_db [simp]: "timeless load_db"
  by (simp add: timeless_def load_db_snd)

lemma timeless_module_init [simp]: "timeless module_init"
  by (auto simp: timeless_def module_init_def mkdir_parents_exist_ok_def UPLOAD_DIR_def
      bind_io_def os_mkdir_def is_dir_def return_io_def
      split: prod.splits sum.splits error.splits if_splits)

lemma timeless_column1 [simp]: "timeless (column1 U)"
  unfolding column1_def by (auto intro!: timeless_when)

lemma timeless_column2 [simp]: "timeless (column2 U)"
  unfolding column2_def by (auto intro!: timeless_when timeless_bind)

lemma timeless_load_model [simp]: "timeless (load_model E sz)"
  by (auto simp: timeless_def load_model_def split: option.splits sum.splits)

lemma timeless_transcribe [simp]: "timeless (transcribe_with_whisper E a sz)"
  unfolding transcribe_with_whisper_def
  by (auto intro!: timeless_bind split: option.splits prod.splits)

lemma timeless_asr_block [simp]: "timeless (asr_block E U sp)"
  unfolding asr_block_def
  by (auto intro!: timeless_bind split: option.splits)

lemma timelessD: "timeless m \<Longrightarrow> m w = (r, w') \<Longrightarrow> ticks w' = ticks w"
  by (auto simp: timeless_def dest: spec [of _ w])

lemma confinedD: "confined S V m \<Longrightarrow> m w = (r, w') \<Longrightarrow> p \<notin> S \<Longrightarrow> fs w' p = fs w p"
  by (auto simp: confined_def stays_def dest: spec [of _ w])

lemma translit_block_snd: "snd (translit_block E U asr tr w) = w"
  by (auto simp: translit_block_def Let_def bind_io_def return_io_def lift_io_def raise_io_def
      split: option.splits sum.splits prod.splits)

lemma save_audio_Inr:
  assumes "save_audio E name b w = (Inr (ts, sp), w')"
  shows "ts = strftime_ts (utcnow E (ticks w))"
    and "sp = UPLOAD_DIR @ [ts @ path_suffix name]"
    and "fs w' = (fs w)(sp \<mapsto> File (Bytes b))"
    and "ticks w' = Suc (ticks w)"
  using assms
  by (auto simp: save_audio_def Let_def bind_io_def now_def write_bytes_def st_def return_io_def
      split: option.splits)

lemma meta_form_Inr:
  assumes "meta_form E U ts sp tr tb tn dl w = (Inr u, w')" and "submitted U" and "consent U"
  shows "\<exists>C form. fst (load_db w) = Inr (JArr C)
           \<and> fs w' = (fs w)(DB_FILE \<mapsto>
                 File (Text (Json_text (JArr (C @ [entry_dict ts form (str_path E sp) tr tb tn dl])))))"
proof -
  let ?w1 = "w\<lparr>ticks := Suc (ticks w)\<rparr>"
  define form where "form = \<lparr>form_title = widget [] (title_typed U),
                   form_performer = widget [] (performer_typed U),
                   form_location = widget [] (location_typed U),
                   form_context = widget [] (context_typed U),
                   form_date = widget (date_of (utcnow E (ticks w))) (date_picked U)\<rparr>"
  let ?e = "entry_dict ts form (str_path E sp) tr tb tn dl"
  have 1: "bind_io (save_entry ?e) (\<lambda>_. st Success_saved) ?w1 = (Inr u, w')"
    using assms by (simp add: meta_form_def bind_io_def now_def Let_def form_def)
  then obtain x w2 where 2: "save_entry ?e ?w1 = (Inr x, w2)" and 3: "st Success_saved w2 = (Inr u, w')"
    by (rule bind_io_InrE)
  from 2 obtain db wl where 4: "load_db ?w1 = (Inr db, wl)"
    unfolding save_entry_def by (rule bind_io_InrE)
  have wl: "wl = ?w1" using load_db_snd [of ?w1] 4 by simp
  from 2 4 obtain C where 5: "db = JArr C"
    by (cases db) (auto simp: save_entry_def bind_io_def append_json_def raise_io_def)
  have 6: "fst (load_db ?w1) = Inr (JArr C)" using 4 5 by simp
  have 7: "fst (load_db w) = Inr (JArr C)"
    using 6 load_db_depends [of w ?w1] by simp
  have 8: "fs w2 = (fs w)(DB_FILE \<mapsto> File (Text (Json_text (JArr (C @ [?e])))))"
    using 2 save_entry_JArr [OF 6, of ?e] by auto
  have 9: "fs w' = fs w2" using 3 by (auto simp: st_def)
  show ?thesis using 7 8 9 by auto
qed

lemma bind_io_breaks_out:
  assumes "\<not> stays S V w (snd (bind_io m f w))" and "confined S V m"
  obtains x w1 where "m w = (Inr x, w1)" and "stays S V w w1"
    and "\<not> stays S V w1 (snd (f x w1))"
proof -
  obtain r w1 where mw: "m w = (r, w1)" by (cases "m w")
  have 1: "stays S V w w1" using assms(2) mw by (auto simp: confined_def dest: spec [of _ w])
  show thesis
  proof (cases r)
    case (Inl e)
    with mw 1 assms(1) show ?thesis by (simp add: bind_io_def)
  next
    case (Inr x)
    have "\<not> stays S V w1 (snd (f x w1))"
    proof
      assume "stays S V w1 (snd (f x w1))"
      with 1 have "stays S V w (snd (f x w1))" by (rule stays_trans)
      with assms(1) mw Inr show False by (simp add: bind_io_def)
    qed
    with mw Inr 1 that show ?thesis by blast
  qed
qed

lemma save_entry_Inl: "save_entry e w = (Inl x, w') \<Longrightarrow> w' = w"
  by (auto simp: save_entry_def bind_io_def load_db_cases append_json_def raise_io_def
      return_io_def write_text_def
      split: option.splits node.splits content.splits document.splits json.splits)

lemma meta_form_breaks_out:
  assumes "\<not> quiet w (snd (meta_form E U ts sp tr tb tn dl w))"
  shows "submitted U \<and> consent U \<and> (\<exists>w'. meta_form E U ts sp tr tb tn dl w = (Inr (), w'))"
proof -
  have c: "consent U"
  proof (rule ccontr)
    assume "\<not> consent U"
    then have "confined (- {DB_FILE}) (- {Success_saved}) (meta_form E U ts sp tr tb tn dl)"
      by (rule confined_meta_form_no_consent) simp
    with assms show False by (simp add: confined_def)
  qed
  have s: "submitted U"
  proof (rule ccontr)
    assume "\<not> submitted U"
    then have "snd (meta_form E U ts sp tr tb tn dl w) = w\<lparr>ticks := Suc (ticks w)\<rparr>"
      by (simp add: meta_form_def bind_io_def now_def Let_def return_io_def)
    with assms show False by (simp add: stays_def)
  qed
  let ?w1 = "w\<lparr>ticks := Suc (ticks w)\<rparr>"
  obtain e where mf: "meta_form E U ts sp tr tb tn dl w
      = bind_io (save_entry e) (\<lambda>_. st Success_saved) ?w1"
    using c s by (simp add: meta_form_def bind_io_def now_def Let_def)
  obtain r w2 where se: "save_entry e ?w1 = (r, w2)" by (cases "save_entry e ?w1")
  show ?thesis
  proof (cases r)
    case (Inl x)
    with se have "w2 = ?w1" by (auto dest: save_entry_Inl)
    with se Inl mf have "snd (meta_form E U ts sp tr tb tn dl w) = ?w1" by (simp add: bind_io_def)
    with assms show ?thesis by (simp add: stays_def)
  next
    case (Inr u)
    with se mf c s show ?thesis by (simp add: bind_io_def st_def)
  qed
qed

lemma stays_quiet_db: "quiet w w' \<Longrightarrow> fs w' DB_FILE = fs w DB_FILE"
  by (simp add: stays_def)

lemma script_breaks_out:
  assumes "\<not> quiet w (snd (script E U w))"
  shows "\<exists>name b C form tr tb tn dl.
            audio_file U = Some (name, b) \<and> process_clicked U \<and> submitted U \<and> consent U
          \<and> fst (load_db w) = Inr (JArr C)
          \<and> fs (snd (script E U w)) DB_FILE =
              Some (File (Text (Json_text (JArr (C @
                [entry_dict (strftime_ts (utcnow E (ticks w))) form
                   (str_path E (UPLOAD_DIR @ [strftime_ts (utcnow E (ticks w)) @ path_suffix name]))
                   tr tb tn dl])))))
          \<and> fs (snd (script E U w))
               (UPLOAD_DIR @ [strftime_ts (utcnow E (ticks w)) @ path_suffix name])
              = Some (File (Bytes b))"
proof -
  have a: "UPLOAD_DIR \<in> - {DB_FILE}" "EXPORT_FILE \<in> - {DB_FILE}"
    "\<And>x. UPLOAD_DIR @ [x] \<in> - {DB_FILE}"
    by (simp_all add: DB_FILE_def UPLOAD_DIR_def EXPORT_FILE_def)
  note assms [unfolded script_def]
  then obtain u1 w1 where 1: "module_init w = (Inr u1, w1)" and q1: "quiet w w1"
    and n1: "\<not> quiet w1 (snd (bind_io (column1 U) (\<lambda>_.
     bind_io (column2 U) (\<lambda>_.
     bind_io
       (case audio_file U of
          None \<Rightarrow> return_io ()
        | Some (name, buffer) \<Rightarrow>
            if process_clicked U then process_branch E U name buffer else return_io ()) (\<lambda>_.
     bind_io (export_panel E U) (\<lambda>_.
     csv_panel U)))) w1))"
    by (rule bind_io_breaks_out) (auto intro!: confined_module_init a)
  from n1 obtain u2 w2 where 2: "column1 U w1 = (Inr u2, w2)" and q2: "quiet w1 w2"
    and n2: "\<not> quiet w2 (snd (bind_io (column2 U) (\<lambda>_.
     bind_io
       (case audio_file U of
          None \<Rightarrow> return_io ()
        | Some (name, buffer) \<Rightarrow>
            if process_clicked U then process_branch E U name buffer else return_io ()) (\<lambda>_.
     bind_io (export_panel E U) (\<lambda>_.
     csv_panel U))) w2))"
    by (rule bind_io_breaks_out) (auto intro!: confined_column1)
  from n2 obtain u3 w3 where 3: "column2 U w2 = (Inr u3, w3)" and q3: "quiet w2 w3"
    and n3: "\<not> quiet w3 (snd (bind_io
       (case audio_file U of
          None \<Rightarrow> return_io ()
        | Some (name, buffer) \<Rightarrow>
            if process_clicked U then process_branch E U name buffer else return_io ()) (\<lambda>_.
     bind_io (export_panel E U) (\<lambda>_.
     csv_panel U)) w3))"
    by (rule bind_io_breaks_out) (auto intro!: confined_column2)
  have rest: "confined S UNIV (bind_io (export_panel E U) (\<lambda>_. csv_panel U))"
    if "EXPORT_FILE \<in> S" for S
    using that by (auto intro!: confined_bind confined_export_panel confined_csv_panel)
  have rest_quiet: "confined (- {DB_FILE}) (- {Success_saved})
      (bind_io (export_panel E U) (\<lambda>_. csv_panel U))"
    by (auto intro!: confined_bind confined_export_panel confined_csv_panel a)
  have t3: "ticks w3 = ticks w"
    using timelessD [OF timeless_module_init 1] timelessD [OF timeless_column1 2]
      timelessD [OF timeless_column2 3] by simp
  have d3: "fs w3 DB_FILE = fs w DB_FILE"
    using q1 q2 q3 by (simp add: stays_def)
  show ?thesis
  proof (cases "audio_file U")
    case None
    with n3 have "\<not> quiet w3 (snd (bind_io (export_panel E U) (\<lambda>_. csv_panel U) w3))"
      by (simp add: bind_io_def return_io_def)
    with rest_quiet show ?thesis by (simp add: confined_def)
  next
    case (Some nb)
    obtain name b where nb: "nb = (name, b)" by (cases nb)
    show ?thesis
    proof (cases "process_clicked U")
      case False
      with n3 Some nb
      have "\<not> quiet w3 (snd (bind_io (export_panel E U) (\<lambda>_. csv_panel U) w3))"
        by (simp add: bind_io_def return_io_def)
      with rest_quiet show ?thesis by (simp add: confined_def)
    next
      case True
      let ?rest = "bind_io (export_panel E U) (\<lambda>_. csv_panel U)"
      from n3 Some nb True
      have n3': "\<not> quiet w3 (snd (bind_io (process_branch E U name b) (\<lambda>_. ?rest) w3))"
        by simp
      obtain r4 w4 where 4: "process_branch E U name b w3 = (r4, w4)"
        by (cases "process_branch E U name b w3")
      have nq4: "\<not> quiet w3 w4"
      proof
        assume q: "quiet w3 w4"
        show False
        proof (cases r4)
          case (Inl e)
          with 4 n3' q show False by (simp add: bind_io_def)
        next
          case (Inr u)
          have "quiet w4 (snd (?rest w4))" using rest_quiet by (simp add: confined_def)
          with q have "quiet w3 (snd (?rest w4))" by (rule stays_trans)
          with 4 Inr n3' show False by (simp add: bind_io_def)
        qed
      qed
      then have n4: "\<not> quiet w3 (snd (process_branch E U name b w3))" using 4 by simp
      note n4 [unfolded process_branch_def]
      then obtain x5 w5 where 5: "save_audio E name b w3 = (Inr x5, w5)"
        and n5: "\<not> quiet w5 (snd ((case x5 of (ts, saved_path) \<Rightarrow>
            bind_io (asr_block E U saved_path) (\<lambda>(asr, transcript).
            bind_io (translit_block E U asr transcript) (\<lambda>(detected_lang, translit_box, translation).
            meta_form E U ts saved_path transcript translit_box translation detected_lang))) w5))"
        by (rule bind_io_breaks_out) (auto intro!: confined_save_audio a)
      obtain ts sp where x5: "x5 = (ts, sp)" by (cases x5)
      note sa = save_audio_Inr [OF 5 [unfolded x5]]
      from n5 x5 have "\<not> quiet w5 (snd (bind_io (asr_block E U sp) (\<lambda>(asr, transcript).
            bind_io (translit_block E U asr transcript) (\<lambda>(detected_lang, translit_box, translation).
            meta_form E U ts sp transcript translit_box translation detected_lang)) w5))"
        by simp
      then obtain x6 w6 where 6: "asr_block E U sp w5 = (Inr x6, w6)"
        and n6: "\<not> quiet w6 (snd ((case x6 of (asr, transcript) \<Rightarrow>
            bind_io (translit_block E U asr transcript) (\<lambda>(detected_lang, translit_box, translation).
            meta_form E U ts sp transcript translit_box translation detected_lang)) w6))"
        by (rule bind_io_breaks_out) (auto intro!: confined_asr_block)
      obtain asr tr where x6: "x6 = (asr, tr)" by (cases x6)
      from n6 x6 have "\<not> quiet w6 (snd (bind_io (translit_block E U asr tr)
            (\<lambda>(detected_lang, translit_box, translation).
            meta_form E U ts sp tr translit_box translation detected_lang) w6))"
        by simp
      then obtain x7 w7 where 7: "translit_block E U asr tr w6 = (Inr x7, w7)"
        and n7: "\<not> quiet w7 (snd ((case x7 of (detected_lang, translit_box, translation) \<Rightarrow>
            meta_form E U ts sp tr translit_box translation detected_lang) w7))"
        by (rule bind_io_breaks_out) auto
      obtain dl tb tn where x7: "x7 = (dl, tb, tn)" by (cases x7)
      from n7 x7 have n8: "\<not> quiet w7 (snd (meta_form E U ts sp tr tb tn dl w7))" by simp
      from meta_form_breaks_out [OF n8] obtain w8
        where sc: "submitted U" "consent U" and 8: "meta_form E U ts sp tr tb tn dl w7 = (Inr (), w8)"
        by blast
      from meta_form_Inr [OF 8 sc] obtain C form
        where C: "fst (load_db w7) = Inr (JArr C)"
          and f8: "fs w8 = (fs w7)(DB_FILE \<mapsto>
                 File (Text (Json_text (JArr (C @ [entry_dict ts form (str_path E sp) tr tb tn dl])))))"
        by blast
      have f6: "fs w6 = fs w5"
        using confinedD [OF confined_asr_block [of UNIV "{}"] 6] by auto
      have f7: "w7 = w6" using translit_block_snd [of E U asr tr w6] 7 by simp
      have pb: "process_branch E U name b w3 = (Inr (), w8)"
        using 5 6 7 8 x5 x6 x7 by (simp add: process_branch_def bind_io_def)
      have fin: "snd (script E U w) = snd (?rest w8)"
        using 1 2 3 pb Some nb True by (simp add: script_def bind_io_def)
      have spne: "sp \<noteq> DB_FILE" "sp \<noteq> EXPORT_FILE"
        using sa(2) by (simp_all add: UPLOAD_DIR_def DB_FILE_def EXPORT_FILE_def)
      have dbne: "DB_FILE \<noteq> EXPORT_FILE" by (simp add: DB_FILE_def EXPORT_FILE_def)
      have r1: "fs (snd (?rest w8)) p = fs w8 p" if "p \<noteq> EXPORT_FILE" for p
        using rest [of "{EXPORT_FILE}"] that by (simp add: confined_def stays_def)
      have ts: "ts = strftime_ts (utcnow E (ticks w))" using sa(1) t3 by simp
      have "fs w7 DB_FILE = fs w DB_FILE" using f7 f6 sa(3) spne d3 by simp
      then have Cw: "fst (load_db w) = Inr (JArr C)" using C load_db_depends [of w7 w] by simp
      have e1: "fs (snd (script E U w)) DB_FILE =
          Some (File (Text (Json_text (JArr (C @ [entry_dict ts form (str_path E sp) tr tb tn dl])))))"
        using fin r1 [OF dbne] f8 by simp
      have e2: "fs (snd (script E U w)) sp = Some (File (Bytes b))"
        using fin r1 [OF spne(2)] f8 f7 f6 sa(3) spne by simp
      show ?thesis
        using Some nb True sc Cw e1 e2 ts sa(2) by blast
    qed
  qed
qed

lemma entry_shape_entry_dict [simp]: "entry_shape (entry_dict ts form sp tr tb tn dl)"
  by (simp add: entry_shape_def entry_dict_def entry_keys_def data_model_fields_def field_def)

lemma field_audio_path [simp]:
  "field ''audio_path'' (entry_dict ts form sp tr tb tn dl) = Some (JStr sp)"
  by (simp add: entry_dict_def field_def)

lemma run_breaks_out:
  assumes "fs (snd (run E U w)) DB_FILE \<noteq> fs w DB_FILE
         \<or> Success_saved \<in> set (screen (snd (run E U w)))"
  shows "\<exists>name b C form tr tb tn dl.
            audio_file U = Some (name, b) \<and> process_clicked U \<and> submitted U \<and> consent U
          \<and> fst (load_db w) = Inr (JArr C)
          \<and> fs (snd (run E U w)) DB_FILE =
              Some (File (Text (Json_text (JArr (C @
                [entry_dict (strftime_ts (utcnow E (ticks w))) form
                   (str_path E (UPLOAD_DIR @ [strftime_ts (utcnow E (ticks w)) @ path_suffix name]))
                   tr tb tn dl])))))
          \<and> fs (snd (run E U w))
               (UPLOAD_DIR @ [strftime_ts (utcnow E (ticks w)) @ path_suffix name])
              = Some (File (Bytes b))"
proof -
  let ?w = "w\<lparr>screen := []\<rparr>"
  have "\<not> quiet ?w (snd (script E U ?w))"
    using assms by (auto simp: stays_def run_def)
  from script_breaks_out [OF this] show ?thesis
    using load_db_depends [of ?w w] by (simp add: run_def)
qed

lemma stored_load_db: "fst (load_db w) = Inr (JArr C) \<Longrightarrow> stored w = C"
  by (auto simp: stored_def dest: load_db_JArr)

lemma run_stored:
  "stored (snd (run E U w)) = stored w
   \<or> (\<exists>e. stored (snd (run E U w)) = stored w @ [e] \<and> entry_shape e)"
proof (cases "fs (snd (run E U w)) DB_FILE = fs w DB_FILE")
  case True
  then show ?thesis by (simp add: stored_def)
next
  case False
  then have "fs (snd (run E U w)) DB_FILE \<noteq> fs w DB_FILE
         \<or> Success_saved \<in> set (screen (snd (run E U w)))" by simp
  from run_breaks_out [OF this] obtain C e where
    c: "fst (load_db w) = Inr (JArr C)"
    and d: "fs (snd (run E U w)) DB_FILE = Some (File (Text (Json_text (JArr (C @ [e])))))"
    and e: "entry_shape e"
    using entry_shape_entry_dict by blast
  from d have "stored (snd (run E U w)) = C @ [e]" by (simp add: stored_def)
  with stored_load_db [OF c] e show ?thesis by blast
qed

subsection \<open>Runs without speech recognition\<close>

lemma module_init_ok:
  assumes "fs w UPLOAD_DIR = None \<or> fs w UPLOAD_DIR = Some Dir"
  shows "\<exists>w1. module_init w = (Inr (), w1) \<and> fs w1 = (fs w)(UPLOAD_DIR \<mapsto> Dir)
            \<and> ticks w1 = ticks w \<and> screen w1 = screen w"
  using assms
  by (auto simp: module_init_def mkdir_parents_exist_ok_def UPLOAD_DIR_def
      bind_io_def os_mkdir_def is_dir_def return_io_def fun_upd_idem_iff)

lemma column1_ok:
  "\<exists>w2. column1 U w = (Inr (), w2) \<and> fs w2 = fs w \<and> ticks w2 = ticks w"
  by (simp add: column1_def when_io_def st_def return_io_def)

lemma column2_ok:
  assumes "fst (load_db w) = Inr db"
  shows "\<exists>w2. column2 U w = (Inr (), w2) \<and> fs w2 = fs w \<and> ticks w2 = ticks w"
proof -
  have "load_db w = (Inr db, w)" using assms load_db_snd [of w] by (cases "load_db w") simp
  then show ?thesis
    by (simp add: column2_def when_io_def st_def return_io_def bind_io_def)
qed

lemma save_audio_ok:
  assumes "fs w UPLOAD_DIR = Some Dir"
    and "fs w (UPLOAD_DIR @ [strftime_ts (utcnow E (ticks w)) @ path_suffix name]) \<noteq> Some Dir"
  shows "\<exists>w'. save_audio E name b w =
            (Inr (strftime_ts (utcnow E (ticks w)),
                  UPLOAD_DIR @ [strftime_ts (utcnow E (ticks w)) @ path_suffix name]), w')
          \<and> fs w' = (fs w)(UPLOAD_DIR @ [strftime_ts (utcnow E (ticks w)) @ path_suffix name]
                              \<mapsto> File (Bytes b))
          \<and> ticks w' = Suc (ticks w)"
  using assms
  by (simp add: save_audio_def Let_def bind_io_def now_def write_bytes_def open_for_writing_def
      is_dir_def st_def return_io_def UPLOAD_DIR_def)

lemma transcribe_unavailable:
  assumes "\<not> WHISPER_AVAILABLE E"
  shows "transcribe_with_whisper E audio_path model_size w = (Inr fallback_asr, w)"
  using assms
  by (simp add: transcribe_with_whisper_def load_model_def bind_io_def return_io_def
      fallback_asr_def)

lemma asr_block_unavailable:
  assumes "\<not> WHISPER_AVAILABLE E"
  shows "\<exists>w'. asr_block E U sp w = (Inr (fallback_asr, widget [] (transcript_typed U)), w')
          \<and> fs w' = fs w \<and> ticks w' = ticks w
          \<and> screen w' = screen w @ [Error_asr_unavailable ''faster-whisper not available'',
                                     Info_paste_manually]"
  by (simp add: asr_block_def bind_io_def transcribe_unavailable [OF assms] st_def return_io_def
      fallback_asr_def)

lemma translit_block_fallback:
  assumes "(if strip tr \<noteq> [] \<and> TRANSLIT_AVAILABLE E
            then romanize E tr (widget ''hi'' (language_typed U)) else Inr []) = Inr r"
  shows "translit_block E U fallback_asr tr w =
           (Inr (widget ''hi'' (language_typed U), widget r (translit_typed U),
                 widget [] (translation_typed U)), w)"
  using assms
  by (auto simp: translit_block_def Let_def fallback_asr_def bind_io_def return_io_def lift_io_def
      split: if_splits)

lemma meta_form_ok:
  assumes "submitted U" and "consent U" and "fst (load_db w) = Inr (JArr C)"
  shows "\<exists>w' form. meta_form E U ts sp tr tb tn dl w = (Inr (), w')
          \<and> fs w' = (fs w)(DB_FILE \<mapsto>
               File (Text (Json_text (JArr (C @ [entry_dict ts form (str_path E sp) tr tb tn dl])))))
          \<and> Success_saved \<in> set (screen w')"
proof -
  let ?w1 = "w\<lparr>ticks := Suc (ticks w)\<rparr>"
  have 1: "fst (load_db ?w1) = Inr (JArr C)"
    using assms(3) load_db_depends [of ?w1 w] by simp
  show ?thesis
    using assms(1,2)
    by (simp add: meta_form_def bind_io_def now_def Let_def save_entry_JArr [OF 1] st_def) blast
qed

lemma rest_keeps_screen:
  "ev \<in> set (screen w) \<Longrightarrow>
     ev \<in> set (screen (snd (bind_io (export_panel E U) (\<lambda>_. csv_panel U) w)))"
  by (auto simp: export_panel_def csv_panel_def when_io_def bind_io_def load_db_cases
      write_text_def len_json_def st_def return_io_def raise_io_def
      split: option.splits node.splits content.splits document.splits json.splits)

lemma script_saves_without_asr:
  assumes W: "\<not> WHISPER_AVAILABLE E"
    and A: "audio_file U = Some (name, b)" and P: "process_clicked U"
    and S: "submitted U" and Cn: "consent U"
    and up: "fs w UPLOAD_DIR = None \<or> fs w UPLOAD_DIR = Some Dir"
    and sp: "fs w (UPLOAD_DIR @ [strftime_ts (utcnow E (ticks w)) @ path_suffix name]) \<noteq> Some Dir"
    and db: "fst (load_db w) = Inr (JArr C)"
    and tl: "(if strip (widget [] (transcript_typed U)) \<noteq> [] \<and> TRANSLIT_AVAILABLE E
              then romanize E (widget [] (transcript_typed U)) (widget ''hi'' (language_typed U))
              else Inr []) = Inr r"
  shows "\<exists>form. fs (snd (script E U w)) DB_FILE =
           Some (File (Text (Json_text (JArr (C @
             [entry_dict (strftime_ts (utcnow E (ticks w))) form
                (str_path E (UPLOAD_DIR @ [strftime_ts (utcnow E (ticks w)) @ path_suffix name]))
                (widget [] (transcript_typed U)) (widget r (translit_typed U))
                (widget [] (translation_typed U)) (widget ''hi'' (language_typed U))])))))
       \<and> Success_saved \<in> set (screen (snd (script E U w)))"
proof -
  let ?ts = "strftime_ts (utcnow E (ticks w))"
  let ?sp = "UPLOAD_DIR @ [?ts @ path_suffix name]"
  let ?tr = "widget [] (transcript_typed U)"
  let ?rest = "bind_io (export_panel E U) (\<lambda>_. csv_panel U)"
  have ne: "?sp \<noteq> DB_FILE" "?sp \<noteq> UPLOAD_DIR" "UPLOAD_DIR \<noteq> DB_FILE" "DB_FILE \<noteq> EXPORT_FILE"
    by (simp_all add: UPLOAD_DIR_def DB_FILE_def EXPORT_FILE_def)
  from module_init_ok [OF up] obtain w1 where 1: "module_init w = (Inr (), w1)"
    and f1: "fs w1 = (fs w)(UPLOAD_DIR \<mapsto> Dir)" and t1: "ticks w1 = ticks w" by blast
  from column1_ok obtain w2 where 2: "column1 U w1 = (Inr (), w2)"
    and f2: "fs w2 = fs w1" and t2: "ticks w2 = ticks w1" by blast
  have db2: "fst (load_db w2) = Inr (JArr C)"
    using db load_db_depends [of w2 w] f2 f1 ne by simp
  from column2_ok [OF db2] obtain w3 where 3: "column2 U w2 = (Inr (), w3)"
    and f3: "fs w3 = fs w2" and t3: "ticks w3 = ticks w2" by blast
  have tk: "ticks w3 = ticks w" using t1 t2 t3 by simp
  have u3: "fs w3 UPLOAD_DIR = Some Dir" using f3 f2 f1 by simp
  have s3: "fs w3 (UPLOAD_DIR @ [strftime_ts (utcnow E (ticks w3)) @ path_suffix name]) \<noteq> Some Dir"
    using sp f3 f2 f1 ne tk by simp
  from save_audio_ok [OF u3 s3, of b] tk obtain w4 where 4: "save_audio E name b w3 = (Inr (?ts, ?sp), w4)"
    and f4: "fs w4 = (fs w3)(?sp \<mapsto> File (Bytes b))" by auto
  from asr_block_unavailable [OF W] obtain w5
    where 5: "asr_block E U ?sp w4 = (Inr (fallback_asr, ?tr), w5)" and f5: "fs w5 = fs w4"
    by blast
  note 6 = translit_block_fallback [OF tl, of w5]
  have db5: "fst (load_db w5) = Inr (JArr C)"
    using db load_db_depends [of w5 w] f5 f4 f3 f2 f1 ne by simp
  from meta_form_ok [OF S Cn db5] obtain w7 form where
    7: "meta_form E U ?ts ?sp ?tr (widget r (translit_typed U)) (widget [] (translation_typed U))
          (widget ''hi'' (language_typed U)) w5 = (Inr (), w7)"
    and f7: "fs w7 = (fs w5)(DB_FILE \<mapsto> File (Text (Json_text (JArr (C @
       [entry_dict ?ts form (str_path E ?sp) ?tr (widget r (translit_typed U))
          (widget [] (translation_typed U)) (widget ''hi'' (language_typed U))])))))"
    and s7: "Success_saved \<in> set (screen w7)"
    by blast
  have pb: "process_branch E U name b w3 = (Inr (), w7)"
    using 4 5 6 7 by (simp add: process_branch_def bind_io_def)
  have fin: "snd (script E U w) = snd (?rest w7)"
    using 1 2 3 pb A P by (simp add: script_def bind_io_def)
  have "confined {EXPORT_FILE} UNIV ?rest"
    by (auto intro!: confined_bind confined_export_panel confined_csv_panel)
  then have "fs (snd (?rest w7)) DB_FILE = fs w7 DB_FILE"
    using ne by (simp add: confined_def stays_def)
  with fin f7 rest_keeps_screen [OF s7, of E U] show ?thesis by auto
qed

subsection \<open>A concrete run\<close>

lemma run_saves_without_asr:
  assumes "\<not> WHISPER_AVAILABLE E"
    and "audio_file U = Some (name, b)" and "process_clicked U"
    and "submitted U" and "consent U"
    and "fs w UPLOAD_DIR = None \<or> fs w UPLOAD_DIR = Some Dir"
    and "fs w (UPLOAD_DIR @ [strftime_ts (utcnow E (ticks w)) @ path_suffix name]) \<noteq> Some Dir"
    and "fst (load_db w) = Inr (JArr C)"
    and "(if strip (widget [] (transcript_typed U)) \<noteq> [] \<and> TRANSLIT_AVAILABLE E
              then romanize E (widget [] (transcript_typed U)) (widget ''hi'' (language_typed U))
              else Inr []) = Inr r"
  shows "\<exists>form. stored (snd (run E U w)) = C @
             [entry_dict (strftime_ts (utcnow E (ticks w))) form
                (str_path E (UPLOAD_DIR @ [strftime_ts (utcnow E (ticks w)) @ path_suffix name]))
                (widget [] (transcript_typed U)) (widget r (translit_typed U))
                (widget [] (translation_typed U)) (widget ''hi'' (language_typed U))]
       \<and> Success_saved \<in> set (screen (snd (run E U w)))"
proof -
  let ?w = "w\<lparr>screen := []\<rparr>"
  have db: "fst (load_db ?w) = Inr (JArr C)" using assms(8) load_db_depends [of ?w w] by simp
  from script_saves_without_asr [of E U name b ?w C r, OF assms(1-5) _ _ db] assms(6,7,9)
  show ?thesis by (auto simp: run_def stored_def)
qed

lemma entry_dict_fields [simp]:
  "field ''transcript'' (entry_dict ts form sp tr tb tn dl) = Some (JStr tr)"
  "field ''transliteration'' (entry_dict ts form sp tr tb tn dl) = Some (JStr tb)"
  "field ''id'' (entry_dict ts form sp tr tb tn dl) = Some (JStr ts)"
  "field ''uploaded_at'' (entry_dict ts form sp tr tb tn dl) = Some (JStr ts)"
  by (simp_all add: entry_dict_def field_def)

lemma demo_facts:
  "\<not> WHISPER_AVAILABLE demo_env" "\<not> TRANSLIT_AVAILABLE demo_env"
  "\<not> WHISPER_AVAILABLE translit_env" "TRANSLIT_AVAILABLE translit_env"
  "audio_file demo_ui = Some (''song1.wav'', ''RIFF'')" "process_clicked demo_ui"
  "submitted demo_ui" "consent demo_ui"
  "transcript_typed demo_ui = Some ''sample lyrics''" "translit_typed demo_ui = None"
  "language_typed demo_ui = None"
  "fs stored_world UPLOAD_DIR = None \<or> fs stored_world UPLOAD_DIR = Some Dir"
  "fs stored_world (UPLOAD_DIR @ [x]) \<noteq> Some Dir"
  "fst (load_db stored_world) = Inr (JArr demo_store)"
  by (simp_all add: demo_env_def translit_env_def demo_ui_def stored_world_def empty_world_def
      UPLOAD_DIR_def DB_FILE_def load_db_cases)

lemma demo_saved: "Success_saved \<in> set (screen (snd (run demo_env demo_ui stored_world)))"
  and demo_stored: "\<exists>e. stored (snd (run demo_env demo_ui stored_world)) = demo_store @ [e]"
proof -
  have tl: "(if strip (widget [] (transcript_typed demo_ui)) \<noteq> [] \<and> TRANSLIT_AVAILABLE demo_env
              then romanize demo_env (widget [] (transcript_typed demo_ui))
                     (widget ''hi'' (language_typed demo_ui))
              else Inr []) = Inr []"
    by (simp add: demo_facts)
  note r = run_saves_without_asr [OF demo_facts(1) demo_facts(5-8) demo_facts(12,13,14) tl]
  from r show "Success_saved \<in> set (screen (snd (run demo_env demo_ui stored_world)))" by blast
  from r show "\<exists>e. stored (snd (run demo_env demo_ui stored_world)) = demo_store @ [e]" by blast
qed

subsection \<open>File names and timestamps\<close>

lemma split_on_no_sep: "c \<notin> set s \<Longrightarrow> split_on c s = [s]"
  by (induction s) auto

lemma rfind_None: "c \<notin> set s \<Longrightarrow> rfind c s = None"
  by (induction s) auto

lemma rfind_last: "c \<notin> set ys \<Longrightarrow> rfind c (xs @ c # ys) = Some (length xs)"
  by (induction xs) (auto simp: rfind_None)

lemma path_suffix_ext:
  assumes "stem \<noteq> []" and "CHR ''/'' \<notin> set stem"
    and "rest \<noteq> []" and "CHR ''.'' \<notin> set rest" and "CHR ''/'' \<notin> set rest"
  shows "path_suffix (stem @ CHR ''.'' # rest) = CHR ''.'' # rest"
proof -
  let ?n = "stem @ CHR ''.'' # rest"
  have 1: "split_on CHR ''/'' ?n = [?n]"
    using assms by (intro split_on_no_sep) auto
  have 2: "?n \<noteq> ''.''" using assms(1) by (cases stem) auto
  have 3: "path_name ?n = ?n" using 1 2 by (simp add: path_name_def)
  have 4: "rfind CHR ''.'' ?n = Some (length stem)" using assms(4) by (rule rfind_last)
  show ?thesis using assms(1,3) by (simp add: path_suffix_def 3 4)
qed

lemma path_suffix_recognized:
  assumes "ext \<in> {''.wav'', ''.mp3'', ''.m4a'', ''.ogg''}"
    and "stem \<noteq> []" and "CHR ''/'' \<notin> set stem"
  shows "path_suffix (stem @ ext) = ext"
  using assms(1) path_suffix_ext [OF assms(2,3)] by auto

lemma strftime_ts_seconds: "strftime_ts (t\<lparr>microsecond := u\<rparr>) = strftime_ts t"
  by (simp add: strftime_ts_def)

lemma strftime_clock0: "strftime_ts (clock0 0) = ''20240309T070500Z''"
  by (simp add: strftime_ts_def clock0_def zero_pad_def str_nat.simps digit_char_def)

subsection \<open>Sessions of single interactions\<close>

lemma one_interactionD: "one_interaction U \<Longrightarrow> \<not> (process_clicked U \<and> submitted U)"
  by (auto simp: one_interaction_def)

lemma run_one_interaction:
  assumes "\<not> (process_clicked U \<and> submitted U)"
  shows "fs (snd (run E U w)) DB_FILE = fs w DB_FILE"
    and "Success_saved \<notin> set (screen (snd (run E U w)))"
proof -
  have "\<not> (fs (snd (run E U w)) DB_FILE \<noteq> fs w DB_FILE
         \<or> Success_saved \<in> set (screen (snd (run E U w))))"
  proof
    assume "fs (snd (run E U w)) DB_FILE \<noteq> fs w DB_FILE
         \<or> Success_saved \<in> set (screen (snd (run E U w)))"
    from run_breaks_out [OF this] assms show False by blast
  qed
  then show "fs (snd (run E U w)) DB_FILE = fs w DB_FILE"
    and "Success_saved \<notin> set (screen (snd (run E U w)))" by auto
qed

lemma runs_one_interaction:
  "list_all (\<lambda>r. one_interaction (snd r)) rs \<Longrightarrow> fs (runs rs w) DB_FILE = fs w DB_FILE"
proof (induction rs arbitrary: w)
  case Nil
  then show ?case by simp
next
  case (Cons r rs)
  obtain E U where r: "r = (E, U)" by (cases r)
  from Cons.prems r have 1: "one_interaction U" and 2: "list_all (\<lambda>r. one_interaction (snd r)) rs"
    by simp_all
  have "fs (runs rs (snd (run E U w))) DB_FILE = fs (snd (run E U w)) DB_FILE"
    using Cons.IH [OF 2] .
  also have "\<dots> = fs w DB_FILE" using run_one_interaction(1) [OF one_interactionD [OF 1]] .
  finally show ?case using r by simp
qed

lemma stored_depends: "fs w1 DB_FILE = fs w2 DB_FILE \<Longrightarrow> stored w1 = stored w2"
  by (simp add: stored_def)

lemma session_facts:
  "one_interaction process_ui" "one_interaction typing_ui" "one_interaction submit_ui"
  "submitted submit_ui" "consent submit_ui" "audio_file submit_ui = Some (''song1.wav'', ''RIFF'')"
  "transcript_typed submit_ui = Some ''sample lyrics''"
  "transcript_typed process_ui = None" "translit_typed process_ui = None"
  "process_clicked process_ui" "translation_typed process_ui = None"
  by (simp_all add: one_interaction_def process_ui_def typing_ui_def submit_ui_def demo_ui_def)

lemma stored_stored_world: "stored stored_world = demo_store"
  by (simp add: stored_def stored_world_def empty_world_def DB_FILE_def UPLOAD_DIR_def)

subsection \<open>The digits of a timestamp\<close>

lemma str_nat_small: "n < 10 \<Longrightarrow> str_nat n = [digit_char n]"
  by (simp add: str_nat.simps)

lemma str_nat_step: "10 \<le> n \<Longrightarrow> str_nat n = str_nat (n div 10) @ [digit_char (n mod 10)]"
  by (subst str_nat.simps) simp

lemma digit_char_nth: "digit_char d = ''0123456789'' ! (d mod 10)"
  by (simp add: digit_char_def)

lemma str_nat_2: "10 \<le> n \<Longrightarrow> n < 100 \<Longrightarrow>
    str_nat n = [digit_char (n div 10), digit_char (n mod 10)]"
  by (simp add: str_nat_step str_nat_small)

lemma str_nat_3: "100 \<le> n \<Longrightarrow> n < 1000 \<Longrightarrow>
    str_nat n = [digit_char (n div 100), digit_char (n div 10 mod 10), digit_char (n mod 10)]"
proof -
  assume a: "100 \<le> n" "n < 1000"
  have 1: "10 \<le> n div 10" "n div 10 < 100" using a by auto
  have 2: "n div 10 div 10 = n div 100" by (simp add: div_mult2_eq [symmetric])
  show ?thesis using a by (simp add: str_nat_step [of n] str_nat_2 [OF 1] 2)
qed

lemma str_nat_4: "1000 \<le> n \<Longrightarrow> n < 10000 \<Longrightarrow>
    str_nat n = [digit_char (n div 1000), digit_char (n div 100 mod 10),
                 digit_char (n div 10 mod 10), digit_char (n mod 10)]"
proof -
  assume a: "1000 \<le> n" "n < 10000"
  have 1: "100 \<le> n div 10" "n div 10 < 1000" using a by auto
  have 2: "n div 10 div 100 = n div 1000" "n div 10 div 10 = n div 100"
    by (simp_all add: div_mult2_eq [symmetric])
  show ?thesis using a by (simp add: str_nat_step [of n] str_nat_3 [OF 1] 2)
qed

lemma zero_pad_2: "n < 100 \<Longrightarrow>
    zero_pad 2 n = [''0123456789'' ! (n div 10), ''0123456789'' ! (n mod 10)]"
proof (cases "n < 10")
  case True
  then show ?thesis by (simp add: zero_pad_def str_nat_small digit_char_def)
next
  case False
  assume "n < 100"
  with False have "10 \<le> n" "n < 100" by auto
  then show ?thesis by (simp add: zero_pad_def str_nat_2 digit_char_def)
qed

lemma zero_pad_4: "1000 \<le> n \<Longrightarrow> n < 10000 \<Longrightarrow>
    zero_pad 4 n = [''0123456789'' ! (n div 1000), ''0123456789'' ! (n div 100 mod 10),
                    ''0123456789'' ! (n div 10 mod 10), ''0123456789'' ! (n mod 10)]"
  by (simp add: zero_pad_def str_nat_4 digit_char_def)

lemma strftime_ts_format:
  assumes "clock_reading_ok t"
  shows "strftime_ts t =
     map ((!) ''0123456789'')
       [year t div 1000, year t div 100 mod 10, year t div 10 mod 10, year t mod 10,
        month t div 10, month t mod 10, day t div 10, day t mod 10] @ ''T'' @
     map ((!) ''0123456789'')
       [hour t div 10, hour t mod 10, minute t div 10, minute t mod 10,
        second t div 10, second t mod 10] @ ''Z''"
proof -
  from assms have y: "1000 \<le> year t" "year t < 10000"
    and r: "month t < 100" "day t < 100" "hour t < 100" "minute t < 100" "second t < 100"
    by (auto simp: clock_reading_ok_def)
  show ?thesis
    by (simp add: strftime_ts_def zero_pad_4 [OF y] zero_pad_2 [OF r(1)] zero_pad_2 [OF r(2)]
        zero_pad_2 [OF r(3)] zero_pad_2 [OF r(4)] zero_pad_2 [OF r(5)])
qed

section \<open>The claims\<close>

text \<open>
  C1. In a run in which the operator withholds consent, the entry store is not written:
  the backing file after the run is the backing file before the run, loading the
  collection gives the same result as before, and the page does not report a saved entry.
  This holds for every run, whatever else is clicked and also when the run ends in an
  exception. So a run that writes the store or reports ``saved'' had consent affirmed.
\<close>

theorem no_write_without_consent:
  assumes "\<not> consent U"
  shows "fs (snd (run E U w)) DB_FILE = fs w DB_FILE
       \<and> fst (load_db (snd (run E U w))) = fst (load_db w)
       \<and> Success_saved \<notin> set (screen (snd (run E U w)))"
proof -
  have "stays (- {DB_FILE}) (- {Success_saved}) (w\<lparr>screen := []\<rparr>) (snd (run E U w))"
    using confined_script_no_consent [OF assms, of E] by (simp add: confined_def run_def)
  then have 1: "fs (snd (run E U w)) DB_FILE = fs w DB_FILE"
    and 2: "Success_saved \<notin> set (screen (snd (run E U w)))"
    by (auto simp: stays_def)
  from 1 have "fst (load_db (snd (run E U w))) = fst (load_db w)" by (rule load_db_depends)
  with 1 2 show ?thesis by simp
qed

theorem no_write_without_consent_witness:
  "\<not> consent (demo_ui\<lparr>consent := False\<rparr>)
 \<and> fs (snd (run demo_env (demo_ui\<lparr>consent := False\<rparr>) stored_world)) DB_FILE
     = fs stored_world DB_FILE
 \<and> fst (load_db (snd (run demo_env (demo_ui\<lparr>consent := False\<rparr>) stored_world)))
     = fst (load_db stored_world)
 \<and> Success_saved \<notin> set (screen (snd (run demo_env (demo_ui\<lparr>consent := False\<rparr>) stored_world)))"
proof -
  have h: "\<not> consent (demo_ui\<lparr>consent := False\<rparr>)" by simp
  show ?thesis
    using h no_write_without_consent [OF h, of demo_env stored_world] by simp
qed

text \<open>
  C2. For a store that holds the collection \<open>C\<close> (the backing file is absent and \<open>C\<close> is
  empty, or the backing file is the JSON array \<open>C\<close>), \<open>save_entry e\<close> succeeds and
  \<open>load_db\<close> afterwards returns \<open>C\<close> with \<open>e\<close> appended at the end: the entries of \<open>C\<close>
  come first, unchanged and in the same order, and the last element is \<open>e\<close>.
\<close>

theorem append_then_load:
  assumes "fst (load_db w) = Inr (JArr C)"
  shows "fst (save_entry e w) = Inr ()
       \<and> fst (load_db (snd (save_entry e w))) = Inr (JArr (C @ [e]))"
  by (simp add: save_entry_JArr [OF assms] load_db_cases)

theorem append_then_load_witness:
  "fst (load_db stored_world) = Inr (JArr demo_store)
 \<and> fst (save_entry (demo_entry ''20240304T100000Z'') stored_world) = Inr ()
 \<and> fst (load_db (snd (save_entry (demo_entry ''20240304T100000Z'') stored_world)))
     = Inr (JArr (demo_store @ [demo_entry ''20240304T100000Z'']))"
proof -
  have h: "fst (load_db stored_world) = Inr (JArr demo_store)"
    by (simp add: load_db_cases stored_world_def empty_world_def DB_FILE_def UPLOAD_DIR_def)
  show ?thesis using h append_then_load [OF h] by simp
qed




text \<open>
  C5. The export button, on a store that holds the collection \<open>C\<close>, writes the whole
  collection to the export file as the same JSON document the store itself would hold
  (when the backing file exists, the export file is equal to it), reports the number of
  entries of \<open>C\<close> as the count, and the export file reads back as exactly \<open>C\<close>. The
  destination is the fixed path \<^verbatim>\<open>BASE_DIR/export.json\<close>, which must not be a directory.
\<close>

theorem export_all:
  assumes "export_clicked U" and "fst (load_db w) = Inr (JArr C)"
    and "fs w EXPORT_FILE \<noteq> Some Dir"
  shows "fst (export_panel E U w) = Inr ()
       \<and> fs (snd (export_panel E U w)) EXPORT_FILE = Some (File (Text (json_dumps (JArr C))))
       \<and> (fs w DB_FILE \<noteq> None \<longrightarrow> fs (snd (export_panel E U w)) EXPORT_FILE = fs w DB_FILE)
       \<and> screen (snd (export_panel E U w))
           = screen w @ [Sidebar_success_written (length C) (str_path E EXPORT_FILE)]
       \<and> fst (bind_io (read_text EXPORT_FILE) json_loads (snd (export_panel E U w)))
           = Inr (JArr C)"
proof -
  have 1: "load_db w = (Inr (JArr C), w)"
    using assms(2) load_db_snd [of w] by (cases "load_db w") simp
  have 2: "open_for_writing w EXPORT_FILE = None"
    using assms(3) by (simp add: open_for_writing_def is_dir_def EXPORT_FILE_def)
  have 3: "export_panel E U w =
      (Inr (), w\<lparr>fs := (fs w)(EXPORT_FILE \<mapsto> File (Text (Json_text (JArr C)))),
                 screen := screen w @
                   [Sidebar_success_written (length C) (str_path E EXPORT_FILE)]\<rparr>)"
    using assms(1)
    by (simp add: export_panel_def when_io_def bind_io_def 1 write_text_def 2 json_dumps_def
        len_json_def return_io_def st_def)
  have 4: "fs w DB_FILE \<noteq> None \<longrightarrow> fs w DB_FILE = Some (File (Text (Json_text (JArr C))))"
    using load_db_JArr [OF assms(2)] by auto
  show ?thesis
    using 4 by (simp add: 3 json_dumps_def bind_io_def read_text_def is_dir_def EXPORT_FILE_def
        json_loads_def return_io_def)
qed

theorem export_all_witness:
  "export_clicked (demo_ui\<lparr>export_clicked := True\<rparr>)
 \<and> fst (load_db stored_world) = Inr (JArr demo_store)
 \<and> fs stored_world EXPORT_FILE \<noteq> Some Dir
 \<and> fs stored_world DB_FILE \<noteq> None
 \<and> length demo_store = 3
 \<and> fst (export_panel demo_env (demo_ui\<lparr>export_clicked := True\<rparr>) stored_world) = Inr ()
 \<and> fs (snd (export_panel demo_env (demo_ui\<lparr>export_clicked := True\<rparr>) stored_world)) EXPORT_FILE
      = fs stored_world DB_FILE
 \<and> screen (snd (export_panel demo_env (demo_ui\<lparr>export_clicked := True\<rparr>) stored_world))
      = [Sidebar_success_written 3 ''/srv/lokgeet/app/export.json'']
 \<and> fst (bind_io (read_text EXPORT_FILE) json_loads
          (snd (export_panel demo_env (demo_ui\<lparr>export_clicked := True\<rparr>) stored_world)))
      = Inr (JArr demo_store)"
proof -
  have a: "export_clicked (demo_ui\<lparr>export_clicked := True\<rparr>)" by simp
  have b: "fst (load_db stored_world) = Inr (JArr demo_store)"
    by (simp add: load_db_cases stored_world_def empty_world_def DB_FILE_def UPLOAD_DIR_def)
  have c: "fs stored_world EXPORT_FILE \<noteq> Some Dir"
    by (simp add: stored_world_def empty_world_def DB_FILE_def UPLOAD_DIR_def EXPORT_FILE_def)
  have d: "fs stored_world DB_FILE \<noteq> None"
    by (simp add: stored_world_def empty_world_def DB_FILE_def UPLOAD_DIR_def)
  have e: "length demo_store = 3" by (simp add: demo_store_def)
  have f: "screen stored_world = []" by (simp add: stored_world_def empty_world_def)
  have g: "str_path demo_env EXPORT_FILE = ''/srv/lokgeet/app/export.json''"
    by (simp add: str_path_def demo_env_def EXPORT_FILE_def)
  note r = export_all [OF a b c, of demo_env]
  from r d have h:
    "fs (snd (export_panel demo_env (demo_ui\<lparr>export_clicked := True\<rparr>) stored_world))
       EXPORT_FILE = fs stored_world DB_FILE" by blast
  from r f g e have i:
    "screen (snd (export_panel demo_env (demo_ui\<lparr>export_clicked := True\<rparr>) stored_world))
       = [Sidebar_success_written 3 ''/srv/lokgeet/app/export.json'']" by simp
  from a b c d e h i r show ?thesis by blast
qed


text \<open>
  C4. The form with the consent checkbox and the \<^verbatim>\<open>Save entry\<close> button (lines 288 to 316)
  is drawn under \<^verbatim>\<open>if audio_file and process:\<close> (line 256), and \<^verbatim>\<open>process\<close> is the value
  of \<^verbatim>\<open>st.button\<close> (line 254). A run in which at most one button is \<^verbatim>\<open>True\<close>, which is
  every run the page framework starts, therefore never reaches \<open>save_entry\<close>: the backing
  file, the loaded collection and its entries are after the run what they were before,
  and the page does not report a saved entry. This holds with consent affirmed and the
  form submitted, so the collection does not get the one entry more that the claim
  promises.
\<close>

theorem single_interaction_run_appends_nothing:
  assumes "one_interaction U"
  shows "fs (snd (run E U w)) DB_FILE = fs w DB_FILE
       \<and> fst (load_db (snd (run E U w))) = fst (load_db w)
       \<and> stored (snd (run E U w)) = stored w
       \<and> Success_saved \<notin> set (screen (snd (run E U w)))"
proof -
  note n = one_interactionD [OF assms]
  have 1: "fs (snd (run E U w)) DB_FILE = fs w DB_FILE" using n by (rule run_one_interaction(1))
  have 2: "Success_saved \<notin> set (screen (snd (run E U w)))" using n by (rule run_one_interaction(2))
  from 1 2 load_db_depends [OF 1] stored_depends [OF 1] show ?thesis by simp
qed

theorem single_interaction_run_appends_nothing_witness:
  "one_interaction submit_ui
 \<and> audio_file submit_ui = Some (''song1.wav'', ''RIFF'')
 \<and> submitted submit_ui \<and> consent submit_ui
 \<and> fs (snd (run demo_env submit_ui stored_world)) DB_FILE = fs stored_world DB_FILE
 \<and> stored (snd (run demo_env submit_ui stored_world)) = demo_store
 \<and> length (stored (snd (run demo_env submit_ui stored_world))) = 3
 \<and> Success_saved \<notin> set (screen (snd (run demo_env submit_ui stored_world)))"
  using single_interaction_run_appends_nothing [OF session_facts(3), of demo_env stored_world]
    session_facts stored_stored_world
  by (simp add: demo_store_def)

text \<open>
  C9. Every entry that the script persists has exactly the twelve fields of the data
  model, in the order of lines 301 to 314; \<^verbatim>\<open>uploaded_at\<close> holds the same timestamp token
  as \<^verbatim>\<open>id\<close>, and there is no \<^verbatim>\<open>consent\<close> field. As an invariant of the store: if the
  entries of the store have this shape (as they do when there is no store yet), they have
  it after any sequence of runs, whatever the inputs and the environment of each run.
\<close>

theorem persisted_entries_have_the_data_model_fields:
  assumes "\<forall>e \<in> set (stored w). entry_shape e"
  shows "\<forall>e \<in> set (stored (runs rs w)). entry_shape e"
  using assms
proof (induction rs arbitrary: w)
  case Nil
  then show ?case by simp
next
  case (Cons r rs)
  obtain E U where r: "r = (E, U)" by (cases r)
  have "\<forall>e \<in> set (stored (snd (run E U w))). entry_shape e"
    using run_stored [of E U w] Cons.prems by auto
  from Cons.IH [OF this] r show ?case by simp
qed

theorem persisted_entries_have_the_data_model_fields_witness:
  "list_all entry_shape (stored stored_world)
 \<and> length (stored (runs [(demo_env, demo_ui)] stored_world)) = 4
 \<and> list_all entry_shape (stored (runs [(demo_env, demo_ui)] stored_world))"
proof -
  have h: "\<forall>e \<in> set (stored stored_world). entry_shape e"
    by (simp add: stored_def stored_world_def empty_world_def DB_FILE_def UPLOAD_DIR_def
        demo_store_def demo_entry_def)
  from demo_stored obtain e
    where "stored (runs [(demo_env, demo_ui)] stored_world) = demo_store @ [e]" by auto
  then have n: "length (stored (runs [(demo_env, demo_ui)] stored_world)) = 4"
    by (simp add: demo_store_def)
  from h n persisted_entries_have_the_data_model_fields [OF h, of "[(demo_env, demo_ui)]"]
  show ?thesis by (simp add: list_all_iff)
qed

text \<open>
  C7. \<open>romanize\<close> returns the empty string whenever the transliteration library is
  unavailable. It does not look at its text: when the library is available it returns
  what the library returns for the text and the scheme of the language code (Devanagari
  for an unknown code). The case of an empty or whitespace-only text is decided at the
  call site (line 281): there the transliteration stays empty and \<open>romanize\<close> is not
  called. First the claim as stated, refuted for a whitespace-only text and a library
  that copies blanks; then the amended claim.
\<close>

theorem romanize_blank_counterexample:
  "strip ''  '' = [] \<and> romanize translit_env ''  '' ''hi'' \<noteq> Inr []"
  by (simp add: strip_def blank1_def blank2_def blank3_def romanize_def translit_env_def demo_env_def
      lang_to_scheme_def)

text \<open>
  C7, amended. \<open>romanize\<close> returns the empty string when the library is unavailable and
  the library's result otherwise; at the call site of the pipeline the transliteration
  offered to the operator is empty whenever the transcript is empty or whitespace-only or
  the library is unavailable, and that step changes nothing in the world.
\<close>

theorem romanize_and_its_call_site:
  "(\<not> TRANSLIT_AVAILABLE E \<longrightarrow> romanize E txt lang = Inr [])
 \<and> (TRANSLIT_AVAILABLE E \<longrightarrow>
       romanize E txt lang =
         transliterate E txt (case lang_to_scheme lang of None \<Rightarrow> DEVANAGARI | Some s \<Rightarrow> s) ITRANS)
 \<and> (strip txt = [] \<or> \<not> TRANSLIT_AVAILABLE E \<longrightarrow>
       (\<exists>dl. translit_block E U asr txt w =
          (Inr (dl, widget [] (translit_typed U), widget [] (translation_typed U)), w)))"
  by (auto simp: romanize_def translit_block_def Let_def bind_io_def return_io_def)

theorem romanize_and_its_call_site_witness:
  "\<not> TRANSLIT_AVAILABLE demo_env
 \<and> romanize demo_env ''so ja'' ''hi'' = Inr []
 \<and> TRANSLIT_AVAILABLE translit_env
 \<and> romanize translit_env ''so ja'' ''bn'' = transliterate translit_env ''so ja'' BENGALI ITRANS
 \<and> strip ''  '' = []
 \<and> (\<exists>dl. translit_block translit_env demo_ui fallback_asr ''  '' empty_world =
        (Inr (dl, [], []), empty_world))
 \<and> strip [CHR 0xC2, CHR 0xA0, CHR 0x09, CHR 0xE3, CHR 0x80, CHR 0x80, CHR 0xC2, CHR 0x85] = []
 \<and> (\<exists>dl. translit_block translit_env demo_ui fallback_asr
             [CHR 0xC2, CHR 0xA0, CHR 0x09, CHR 0xE3, CHR 0x80, CHR 0x80, CHR 0xC2, CHR 0x85]
             empty_world =
        (Inr (dl, [], []), empty_world))"
proof -
  have a: "\<not> TRANSLIT_AVAILABLE demo_env" "TRANSLIT_AVAILABLE translit_env"
    by (simp_all add: demo_facts)
  have b: "strip ''  '' = []" by (simp add: strip_def blank1_def blank2_def blank3_def)
  have b': "strip [CHR 0xC2, CHR 0xA0, CHR 0x09, CHR 0xE3, CHR 0x80, CHR 0x80, CHR 0xC2, CHR 0x85] = []"
    by (simp add: strip_def blank1_def blank2_def blank3_def)
  have c: "lang_to_scheme ''bn'' = Some BENGALI" by (simp add: lang_to_scheme_def)
  have d: "widget [] (translit_typed demo_ui) = []" "widget [] (translation_typed demo_ui) = []"
    by (simp_all add: widget_def demo_ui_def)
  from a b b' c d
    romanize_and_its_call_site [of demo_env "''so ja''" "''hi''" demo_ui fallback_asr empty_world]
    romanize_and_its_call_site [of translit_env "''so ja''" "''bn''" demo_ui fallback_asr empty_world]
    romanize_and_its_call_site [of translit_env "''  ''" "''hi''" demo_ui fallback_asr empty_world]
    romanize_and_its_call_site [of translit_env
      "[CHR 0xC2, CHR 0xA0, CHR 0x09, CHR 0xE3, CHR 0x80, CHR 0x80, CHR 0xC2, CHR 0x85]" "''hi''"
      demo_ui fallback_asr empty_world]
  show ?thesis by simp
qed

text \<open>
  C8. When speech recognition is unavailable, \<open>transcribe_with_whisper\<close> returns the
  fallback dict with the key \<^verbatim>\<open>error\<close> and does not raise or change the world. In the run
  that the \<^verbatim>\<open>Process audio\<close> button starts the boxes are fresh: the recognition step goes
  on with an empty transcript, and the transliteration offered for it is empty. But no
  session of runs with at most one button \<^verbatim>\<open>True\<close> each, which is every session the page
  framework produces, writes the entry store: the run that \<^verbatim>\<open>Save entry\<close> starts has
  \<^verbatim>\<open>process = False\<close> and skips lines 256 to 316. So the entry with the typed transcript
  that the claim promises is not persisted.
\<close>

theorem asr_off_session_persists_nothing:
  "(\<not> WHISPER_AVAILABLE E \<longrightarrow>
      transcribe_with_whisper E audio_path model_size w0 = (Inr fallback_asr, w0))
 \<and> (\<not> WHISPER_AVAILABLE E \<and> transcript_typed U = None \<and> translit_typed U = None \<longrightarrow>
      (\<exists>w'. asr_block E U sp w0 = (Inr (fallback_asr, []), w'))
    \<and> (\<exists>dl. translit_block E U fallback_asr [] w0 =
           (Inr (dl, [], widget [] (translation_typed U)), w0)))
 \<and> (list_all (\<lambda>r. one_interaction (snd r)) rs \<longrightarrow>
      fs (runs rs w) DB_FILE = fs w DB_FILE \<and> stored (runs rs w) = stored w)"
proof -
  have a: "transcribe_with_whisper E audio_path model_size w0 = (Inr fallback_asr, w0)"
    if "\<not> WHISPER_AVAILABLE E" using that by (rule transcribe_unavailable)
  have b: "\<exists>w'. asr_block E U sp w0 = (Inr (fallback_asr, []), w')"
    if "\<not> WHISPER_AVAILABLE E" "transcript_typed U = None"
    using asr_block_unavailable [OF that(1), of U sp w0] that(2) by (auto simp: widget_def)
  have c: "\<exists>dl. translit_block E U fallback_asr [] w0 =
           (Inr (dl, [], widget [] (translation_typed U)), w0)"
    if "translit_typed U = None"
    using that by (simp add: translit_block_def Let_def strip_def bind_io_def return_io_def widget_def)
  have d: "fs (runs rs w) DB_FILE = fs w DB_FILE \<and> stored (runs rs w) = stored w"
    if "list_all (\<lambda>r. one_interaction (snd r)) rs"
    using runs_one_interaction [OF that, of w] stored_depends by blast
  from a b c d show ?thesis by blast
qed

theorem asr_off_session_persists_nothing_witness:
  "\<not> WHISPER_AVAILABLE demo_env
 \<and> transcript_typed process_ui = None \<and> translit_typed process_ui = None
 \<and> process_clicked process_ui
 \<and> transcript_typed submit_ui = Some ''sample lyrics'' \<and> consent submit_ui \<and> submitted submit_ui
 \<and> list_all (\<lambda>r. one_interaction (snd r))
      [(demo_env, process_ui), (demo_env, typing_ui), (demo_env, submit_ui)]
 \<and> transcribe_with_whisper demo_env ''a.wav'' ''small'' stored_world = (Inr fallback_asr, stored_world)
 \<and> (\<exists>w'. asr_block demo_env process_ui [''uploads'', ''a.wav''] stored_world
        = (Inr (fallback_asr, []), w'))
 \<and> (\<exists>dl. translit_block demo_env process_ui fallback_asr [] stored_world =
        (Inr (dl, [], []), stored_world))
 \<and> stored (runs [(demo_env, process_ui), (demo_env, typing_ui), (demo_env, submit_ui)] stored_world)
     = demo_store"
proof -
  have l: "list_all (\<lambda>r. one_interaction (snd r))
      [(demo_env, process_ui), (demo_env, typing_ui), (demo_env, submit_ui)]"
    by (simp add: session_facts)
  have w: "widget [] (translation_typed process_ui) = []" by (simp add: session_facts widget_def)
  from asr_off_session_persists_nothing
    [of demo_env "''a.wav''" "''small''" stored_world process_ui "[''uploads'', ''a.wav'']"
      "[(demo_env, process_ui), (demo_env, typing_ui), (demo_env, submit_ui)]" stored_world]
    l w demo_facts(1) session_facts stored_stored_world
  show ?thesis by simp
qed

text \<open>
  C6. For every upload with bytes \<open>b\<close> and a file name that ends in one of the
  recognized extensions (after a non-empty stem without a slash), module initialisation
  followed by the audio save step creates the upload directory if it is absent, takes as
  id the UTC clock reading formatted as \<^verbatim>\<open>%Y%m%dT%H%M%SZ\<close>, writes to
  \<^verbatim>\<open>uploads/<id><extension>\<close> and leaves at that path a file that holds exactly \<open>b\<close>. The
  id has second resolution: the microseconds of the reading play no part, and for a
  reading \<open>t\<close> of \<^verbatim>\<open>datetime.utcnow()\<close> with a year of four digits the id is, character by
  character, the four digits of the year, the two digits of the month and of the day,
  the letter \<^verbatim>\<open>T\<close>, the two digits of the hour, of the minute and of the second, and the
  letter \<^verbatim>\<open>Z\<close>. The upload directory must not exist as a regular file and the target must
  not be a directory, else the operating system refuses.
\<close>

theorem audio_saved_byte_for_byte:
  assumes "ext \<in> {''.wav'', ''.mp3'', ''.m4a'', ''.ogg''}"
    and "stem \<noteq> []" and "CHR ''/'' \<notin> set stem"
    and "fs w UPLOAD_DIR = None \<or> fs w UPLOAD_DIR = Some Dir"
    and "fs w (UPLOAD_DIR @ [strftime_ts (utcnow E (ticks w)) @ ext]) \<noteq> Some Dir"
  shows "\<exists>w'. bind_io module_init (\<lambda>_. save_audio E (stem @ ext) b) w =
            (Inr (strftime_ts (utcnow E (ticks w)),
                  UPLOAD_DIR @ [strftime_ts (utcnow E (ticks w)) @ ext]), w')
          \<and> fs w' UPLOAD_DIR = Some Dir
          \<and> fs w' (UPLOAD_DIR @ [strftime_ts (utcnow E (ticks w)) @ ext]) = Some (File (Bytes b))
          \<and> strftime_ts (utcnow E (ticks w))
              = strftime_ts ((utcnow E (ticks w))\<lparr>microsecond := 0\<rparr>)
          \<and> (clock_reading_ok (utcnow E (ticks w)) \<longrightarrow>
               strftime_ts (utcnow E (ticks w)) =
                 map ((!) ''0123456789'')
                   [year (utcnow E (ticks w)) div 1000, year (utcnow E (ticks w)) div 100 mod 10,
                    year (utcnow E (ticks w)) div 10 mod 10, year (utcnow E (ticks w)) mod 10,
                    month (utcnow E (ticks w)) div 10, month (utcnow E (ticks w)) mod 10,
                    day (utcnow E (ticks w)) div 10, day (utcnow E (ticks w)) mod 10] @ ''T'' @
                 map ((!) ''0123456789'')
                   [hour (utcnow E (ticks w)) div 10, hour (utcnow E (ticks w)) mod 10,
                    minute (utcnow E (ticks w)) div 10, minute (utcnow E (ticks w)) mod 10,
                    second (utcnow E (ticks w)) div 10, second (utcnow E (ticks w)) mod 10] @ ''Z'')"
proof -
  let ?ts = "strftime_ts (utcnow E (ticks w))"
  let ?sp = "UPLOAD_DIR @ [?ts @ ext]"
  have sx: "path_suffix (stem @ ext) = ext" using assms(1-3) by (rule path_suffix_recognized)
  have ne: "?sp \<noteq> UPLOAD_DIR" by (simp add: UPLOAD_DIR_def)
  from module_init_ok [OF assms(4)] obtain w1 where 1: "module_init w = (Inr (), w1)"
    and f1: "fs w1 = (fs w)(UPLOAD_DIR \<mapsto> Dir)" and t1: "ticks w1 = ticks w" by blast
  have u1: "fs w1 UPLOAD_DIR = Some Dir" using f1 by simp
  have s1: "fs w1 (UPLOAD_DIR @ [strftime_ts (utcnow E (ticks w1)) @ path_suffix (stem @ ext)])
      \<noteq> Some Dir"
    using assms(5) f1 t1 sx ne by simp
  from save_audio_ok [OF u1 s1, of b] t1 sx obtain w2
    where 2: "save_audio E (stem @ ext) b w1 = (Inr (?ts, ?sp), w2)"
      and f2: "fs w2 = (fs w1)(?sp \<mapsto> File (Bytes b))" by auto
  have a: "bind_io module_init (\<lambda>_. save_audio E (stem @ ext) b) w = (Inr (?ts, ?sp), w2)"
    using 1 2 by (simp add: bind_io_def)
  have b: "fs w2 UPLOAD_DIR = Some Dir" using f2 u1 ne by simp
  have c: "fs w2 ?sp = Some (File (Bytes b))" using f2 by simp
  have d: "?ts = strftime_ts ((utcnow E (ticks w))\<lparr>microsecond := 0\<rparr>)"
    by (simp add: strftime_ts_seconds)
  note e = strftime_ts_format [of "utcnow E (ticks w)"]
  from a b c d e show ?thesis by blast
qed

theorem audio_saved_byte_for_byte_witness:
  "''.wav'' \<in> {''.wav'', ''.mp3'', ''.m4a'', ''.ogg''}
 \<and> ''song1'' \<noteq> [] \<and> CHR ''/'' \<notin> set ''song1''
 \<and> fs empty_world UPLOAD_DIR = None
 \<and> utcnow demo_env (ticks empty_world) =
     \<lparr>year = 2024, month = 3, day = 9, hour = 7, minute = 5, second = 0, microsecond = 250\<rparr>
 \<and> clock_reading_ok (utcnow demo_env (ticks empty_world))
 \<and> strftime_ts (utcnow demo_env (ticks empty_world)) = ''20240309T070500Z''
 \<and> (\<exists>w'. bind_io module_init (\<lambda>_. save_audio demo_env ''song1.wav'' ''RIFF'') empty_world =
            (Inr (''20240309T070500Z'', [''uploads'', ''20240309T070500Z.wav'']), w')
          \<and> fs w' UPLOAD_DIR = Some Dir
          \<and> fs w' [''uploads'', ''20240309T070500Z.wav''] = Some (File (Bytes ''RIFF'')))"
proof -
  have a: "''.wav'' \<in> {''.wav'', ''.mp3'', ''.m4a'', ''.ogg''}" by simp
  have b: "''song1'' \<noteq> []" "CHR ''/'' \<notin> set ''song1''" by simp_all
  have c: "fs empty_world UPLOAD_DIR = None \<or> fs empty_world UPLOAD_DIR = Some Dir"
    by (simp add: empty_world_def)
  have d: "fs empty_world (UPLOAD_DIR @ [strftime_ts (utcnow demo_env (ticks empty_world)) @ ''.wav''])
      \<noteq> Some Dir"
    by (simp add: empty_world_def)
  have t: "utcnow demo_env (ticks empty_world) =
     \<lparr>year = 2024, month = 3, day = 9, hour = 7, minute = 5, second = 0, microsecond = 250\<rparr>"
    by (simp add: demo_env_def empty_world_def clock0_def)
  have k: "clock_reading_ok (utcnow demo_env (ticks empty_world))"
    by (simp add: t clock_reading_ok_def)
  note th = audio_saved_byte_for_byte [OF a b c d, of "''RIFF''"]
  from th k have e: "strftime_ts (utcnow demo_env (ticks empty_world)) =
                 map ((!) ''0123456789'')
                   [year (utcnow demo_env (ticks empty_world)) div 1000,
                    year (utcnow demo_env (ticks empty_world)) div 100 mod 10,
                    year (utcnow demo_env (ticks empty_world)) div 10 mod 10,
                    year (utcnow demo_env (ticks empty_world)) mod 10,
                    month (utcnow demo_env (ticks empty_world)) div 10,
                    month (utcnow demo_env (ticks empty_world)) mod 10,
                    day (utcnow demo_env (ticks empty_world)) div 10,
                    day (utcnow demo_env (ticks empty_world)) mod 10] @ ''T'' @
                 map ((!) ''0123456789'')
                   [hour (utcnow demo_env (ticks empty_world)) div 10,
                    hour (utcnow demo_env (ticks empty_world)) mod 10,
                    minute (utcnow demo_env (ticks empty_world)) div 10,
                    minute (utcnow demo_env (ticks empty_world)) mod 10,
                    second (utcnow demo_env (ticks empty_world)) div 10,
                    second (utcnow demo_env (ticks empty_world)) mod 10] @ ''Z''"
    by blast
  from th obtain w' where r: "bind_io module_init (\<lambda>_. save_audio demo_env (''song1'' @ ''.wav'') ''RIFF'') empty_world =
            (Inr (strftime_ts (utcnow demo_env (ticks empty_world)),
                  UPLOAD_DIR @ [strftime_ts (utcnow demo_env (ticks empty_world)) @ ''.wav'']), w')"
    and r1: "fs w' UPLOAD_DIR = Some Dir"
    and r2: "fs w' (UPLOAD_DIR @ [strftime_ts (utcnow demo_env (ticks empty_world)) @ ''.wav''])
               = Some (File (Bytes ''RIFF''))"
    by blast
  have e': "strftime_ts (utcnow demo_env (ticks empty_world)) = ''20240309T070500Z''"
    using e unfolding t by simp
  from r r1 r2 have "\<exists>w'. bind_io module_init (\<lambda>_. save_audio demo_env ''song1.wav'' ''RIFF'') empty_world =
            (Inr (''20240309T070500Z'', [''uploads'', ''20240309T070500Z.wav'']), w')
          \<and> fs w' UPLOAD_DIR = Some Dir
          \<and> fs w' [''uploads'', ''20240309T070500Z.wav''] = Some (File (Bytes ''RIFF''))"
    unfolding e' by (simp add: UPLOAD_DIR_def)
  with a b t k e' show ?thesis by (simp add: empty_world_def)
qed

end
